theory Spec2Isabelle
  imports Complex_Main
begin

text \<open>
  A model of the magnifying glass of \<^verbatim>\<open>web/magnify_glass.js\<close>: the geometry of the sample
  rectangle, the overlap test of the overlay compositor, the persisted offsets, and the
  controller with its key, pointer and frame handlers. Each definition follows one function
  of the source and keeps its name; the line numbers are those of the source file.
\<close>

section \<open>JavaScript numbers\<close>

text \<open>
  Every number of \<^verbatim>\<open>web/magnify_glass.js\<close> is a JavaScript Number. The model keeps the
  finite values as exact reals and adds the three values that are not finite, so that a
  division by zero and a failed \<^verbatim>\<open>parseInt\<close> are values of the model, as they are
  values of the program. The operators \<open>+\<close>, \<open>-\<close>, \<open>*\<close> and \<open>/\<close> of the model are
  those of IEEE 754 before rounding: on finite values they are exact. The operations of
  the program round their result to the nearest double; they are \<open>add64\<close>, \<open>sub64\<close>,
  \<open>mul64\<close> and \<open>div64\<close> below. The sign of zero is left out (a zero divisor is taken as
  \<^verbatim>\<open>+0\<close>).
\<close>

datatype jsnum = JNum real | JPosInf | JNegInf | JNaN

instantiation jsnum :: "{plus, uminus, minus, times, inverse, ord}"
begin

fun plus_jsnum :: "jsnum \<Rightarrow> jsnum \<Rightarrow> jsnum" where
  "plus_jsnum (JNum a) (JNum b) = JNum (a + b)"
| "plus_jsnum JNaN _ = JNaN"
| "plus_jsnum _ JNaN = JNaN"
| "plus_jsnum JPosInf JNegInf = JNaN"
| "plus_jsnum JNegInf JPosInf = JNaN"
| "plus_jsnum JPosInf _ = JPosInf"
| "plus_jsnum _ JPosInf = JPosInf"
| "plus_jsnum JNegInf _ = JNegInf"
| "plus_jsnum _ JNegInf = JNegInf"

fun uminus_jsnum :: "jsnum \<Rightarrow> jsnum" where
  "uminus_jsnum (JNum a) = JNum (- a)"
| "uminus_jsnum JPosInf = JNegInf"
| "uminus_jsnum JNegInf = JPosInf"
| "uminus_jsnum JNaN = JNaN"

definition minus_jsnum :: "jsnum \<Rightarrow> jsnum \<Rightarrow> jsnum" where
  "minus_jsnum (a::jsnum) (b::jsnum) = a + (- b)"

fun times_jsnum :: "jsnum \<Rightarrow> jsnum \<Rightarrow> jsnum" where
  "times_jsnum (JNum a) (JNum b) = JNum (a * b)"
| "times_jsnum JNaN _ = JNaN"
| "times_jsnum _ JNaN = JNaN"
| "times_jsnum JPosInf (JNum b) = (if b = 0 then JNaN else if 0 < b then JPosInf else JNegInf)"
| "times_jsnum JNegInf (JNum b) = (if b = 0 then JNaN else if 0 < b then JNegInf else JPosInf)"
| "times_jsnum (JNum a) JPosInf = (if a = 0 then JNaN else if 0 < a then JPosInf else JNegInf)"
| "times_jsnum (JNum a) JNegInf = (if a = 0 then JNaN else if 0 < a then JNegInf else JPosInf)"
| "times_jsnum JPosInf JPosInf = JPosInf"
| "times_jsnum JNegInf JNegInf = JPosInf"
| "times_jsnum JPosInf JNegInf = JNegInf"
| "times_jsnum JNegInf JPosInf = JNegInf"

fun divide_jsnum :: "jsnum \<Rightarrow> jsnum \<Rightarrow> jsnum" where
  "divide_jsnum (JNum a) (JNum b) =
     (if b = 0 then (if a = 0 then JNaN else if 0 < a then JPosInf else JNegInf)
      else JNum (a / b))"
| "divide_jsnum JNaN _ = JNaN"
| "divide_jsnum _ JNaN = JNaN"
| "divide_jsnum (JNum a) _ = JNum 0"
| "divide_jsnum JPosInf (JNum b) = (if b < 0 then JNegInf else JPosInf)"
| "divide_jsnum JNegInf (JNum b) = (if b < 0 then JPosInf else JNegInf)"
| "divide_jsnum _ _ = JNaN"

definition inverse_jsnum :: "jsnum \<Rightarrow> jsnum" where
  "inverse_jsnum (a::jsnum) = divide (JNum 1) a"

fun less_jsnum :: "jsnum \<Rightarrow> jsnum \<Rightarrow> bool" where
  "less_jsnum (JNum a) (JNum b) = (a < b)"
| "less_jsnum JNegInf (JNum b) = True"
| "less_jsnum JNegInf JPosInf = True"
| "less_jsnum (JNum a) JPosInf = True"
| "less_jsnum _ _ = False"

fun less_eq_jsnum :: "jsnum \<Rightarrow> jsnum \<Rightarrow> bool" where
  "less_eq_jsnum (JNum a) (JNum b) = (a \<le> b)"
| "less_eq_jsnum JNaN _ = False"
| "less_eq_jsnum _ JNaN = False"
| "less_eq_jsnum JNegInf _ = True"
| "less_eq_jsnum _ JPosInf = True"
| "less_eq_jsnum _ _ = False"

instance ..

end

text \<open>
  \<^verbatim>\<open>a === b\<close> on numbers: \<^verbatim>\<open>NaN\<close> is not equal to itself. The relations
  \<^verbatim>\<open>a > b\<close> and \<^verbatim>\<open>a >= b\<close> of the source are written \<open>b < a\<close> and \<open>b \<le> a\<close>,
  which is what IEEE comparison makes of them (both are false on \<^verbatim>\<open>NaN\<close>).
\<close>

definition strict_eq :: "jsnum \<Rightarrow> jsnum \<Rightarrow> bool" where
  "strict_eq a b = (a = b \<and> a \<noteq> JNaN)"

text \<open>\<^verbatim>\<open>v || 0\<close> on a number: \<^verbatim>\<open>0\<close> and \<^verbatim>\<open>NaN\<close> are falsy.\<close>

definition or_zero :: "jsnum \<Rightarrow> jsnum" where
  "or_zero v = (if v = JNum 0 \<or> v = JNaN then JNum 0 else v)"

subsection \<open>Rounding to double precision\<close>

text \<open>
  The exponent of a positive real: \<open>ilog2 x = e\<close> when \<open>2 powi e \<le> x < 2 powi (e + 1)\<close>.
\<close>

definition ilog2 :: "real \<Rightarrow> int" where
  "ilog2 x = (if x \<le> 0 then 0 else \<lfloor>log 2 x\<rfloor>)"

text \<open>The nearest integer, the even one of the two when \<open>m\<close> is half way between them.\<close>

definition roundHalfEven :: "real \<Rightarrow> int" where
  "roundHalfEven m =
     (let f = \<lfloor>m\<rfloor>; r = m - of_int f
      in if r < 1 / 2 then f else if 1 / 2 < r then f + 1 else if even f then f else f + 1)"

text \<open>
  The rounding of IEEE 754 binary64, to nearest and to even on a tie: a real is rounded to
  a multiple of \<open>2 powi (e - 52)\<close>, where \<open>e\<close> is its exponent and at least \<open>-1022\<close> (below
  that the doubles are subnormal and evenly spaced). A result of magnitude \<open>2 ^ 1024\<close> is
  an overflow and gives an infinity.
\<close>

definition round64 :: "real \<Rightarrow> jsnum" where
  "round64 x =
     (if x = 0 then JNum 0
      else
        let e = max (ilog2 \<bar>x\<bar>) (- 1022);
            quantum = 2 powi (e - 52);
            y = of_int (roundHalfEven (x / quantum)) * quantum
        in if 2 ^ 1024 \<le> \<bar>y\<bar> then (if 0 < x then JPosInf else JNegInf) else JNum y)"

definition fl :: "jsnum \<Rightarrow> jsnum" where
  "fl v = (case v of JNum x \<Rightarrow> round64 x | _ \<Rightarrow> v)"

text \<open>
  The four operations of the program on doubles, \<^verbatim>\<open>a + b\<close>, \<^verbatim>\<open>a - b\<close>, \<^verbatim>\<open>a * b\<close> and
  \<^verbatim>\<open>a / b\<close>: the exact result, rounded.
\<close>

definition add64 :: "jsnum \<Rightarrow> jsnum \<Rightarrow> jsnum" where
  "add64 a b = fl (a + b)"

definition sub64 :: "jsnum \<Rightarrow> jsnum \<Rightarrow> jsnum" where
  "sub64 a b = fl (a - b)"

definition mul64 :: "jsnum \<Rightarrow> jsnum \<Rightarrow> jsnum" where
  "mul64 a b = fl (a * b)"

definition div64 :: "jsnum \<Rightarrow> jsnum \<Rightarrow> jsnum" where
  "div64 a b = fl (a / b)"

section \<open>Configuration and interaction state\<close>

text \<open>
  \<^verbatim>\<open>ConfigManager\<close>: the fields the geometry and the event handlers read. The fields that
  only style the glass (border colour and width, shape, texture filter) are read by no
  function modelled here and are left out.
\<close>

record config =
  zoomFactor :: jsnum
  glassSize :: jsnum
  activationKey :: string
  altRequired :: bool
  followCursor :: bool
  debugMode :: bool
  offsetStep :: jsnum
  glassPosition :: string
  resetKey :: string
  resetAltRequired :: bool
  offsetX :: jsnum
  offsetY :: jsnum

text \<open>
  \<^verbatim>\<open>MagnifierState\<close>. The source's fields \<^verbatim>\<open>x\<close> and \<^verbatim>\<open>y\<close> (the cursor in canvas
  pixels) are \<open>cursorX\<close> and \<open>cursorY\<close> here.
\<close>

record mstate =
  active :: bool
  cursorX :: jsnum
  cursorY :: jsnum
  sourceX :: jsnum
  sourceY :: jsnum
  sourceWidth :: jsnum
  sourceHeight :: jsnum
  canvasScale :: jsnum
  canvasOffsetX :: jsnum
  canvasOffsetY :: jsnum
  isRenderScheduled :: bool

section \<open>Geometry\<close>

text \<open>
  \<^verbatim>\<open>MagnifyGlass.calculateSourceRegion\<close> (lines 160-208), step by step. The guard
  returns before any division when the scale is zero. Arithmetic on numbers never throws
  in JavaScript, so the function has no error result.
\<close>

definition calculateSourceRegion :: "config \<Rightarrow> mstate \<Rightarrow> mstate" where
  "calculateSourceRegion cfg st =
     (let cursorPixelX = cursorX st;
          cursorPixelY = cursorY st;
          scale = canvasScale st;
          offX = canvasOffsetX st;
          offY = canvasOffsetY st
      in if strict_eq scale (JNum 0) then st
         else
           let cursorGraphX = (cursorPixelX - offX) / scale;
               cursorGraphY = (cursorPixelY - offY) / scale;
               targetGraphCenterX = cursorGraphX + offsetX cfg;
               targetGraphCenterY = cursorGraphY + offsetY cfg;
               sourceGraphWidth = (glassSize cfg / zoomFactor cfg) / scale;
               sourceGraphHeight = (glassSize cfg / zoomFactor cfg) / scale;
               sourceGraphX = targetGraphCenterX - (sourceGraphWidth / JNum 2);
               sourceGraphY = targetGraphCenterY - (sourceGraphHeight / JNum 2)
           in st\<lparr>sourceX := (sourceGraphX * scale) + offX,
                 sourceY := (sourceGraphY * scale) + offY,
                 sourceWidth := sourceGraphWidth * scale,
                 sourceHeight := sourceGraphHeight * scale\<rparr>)"

text \<open>
  The same function with the arithmetic of the program: every operation rounds its result
  to a double, in the order in which the source evaluates them.
\<close>

definition calculateSourceRegion64 :: "config \<Rightarrow> mstate \<Rightarrow> mstate" where
  "calculateSourceRegion64 cfg st =
     (let cursorPixelX = cursorX st;
          cursorPixelY = cursorY st;
          scale = canvasScale st;
          offX = canvasOffsetX st;
          offY = canvasOffsetY st
      in if strict_eq scale (JNum 0) then st
         else
           let cursorGraphX = div64 (sub64 cursorPixelX offX) scale;
               cursorGraphY = div64 (sub64 cursorPixelY offY) scale;
               targetGraphCenterX = add64 cursorGraphX (offsetX cfg);
               targetGraphCenterY = add64 cursorGraphY (offsetY cfg);
               sourceGraphWidth = div64 (div64 (glassSize cfg) (zoomFactor cfg)) scale;
               sourceGraphHeight = div64 (div64 (glassSize cfg) (zoomFactor cfg)) scale;
               sourceGraphX = sub64 targetGraphCenterX (div64 sourceGraphWidth (JNum 2));
               sourceGraphY = sub64 targetGraphCenterY (div64 sourceGraphHeight (JNum 2))
           in st\<lparr>sourceX := add64 (mul64 sourceGraphX scale) offX,
                 sourceY := add64 (mul64 sourceGraphY scale) offY,
                 sourceWidth := mul64 sourceGraphWidth scale,
                 sourceHeight := mul64 sourceGraphHeight scale\<rparr>)"

text \<open>An axis-aligned rectangle \<^verbatim>\<open>{x, y, width, height}\<close>.\<close>

record rect =
  rect_x :: jsnum
  rect_y :: jsnum
  rect_width :: jsnum
  rect_height :: jsnum

text \<open>\<^verbatim>\<open>MagnifyGlass.rectsOverlap\<close> (lines 211-216).\<close>

definition rectsOverlap :: "rect \<Rightarrow> rect \<Rightarrow> bool" where
  "rectsOverlap rect1 rect2 =
     (rect_x rect1 < rect_x rect2 + rect_width rect2 \<and>
      rect_x rect2 < rect_x rect1 + rect_width rect1 \<and>
      rect_y rect1 < rect_y rect2 + rect_height rect2 \<and>
      rect_y rect2 < rect_y rect1 + rect_height rect1)"

text \<open>The pixel-to-world inverse of the host transform: pixel minus offset, over scale.\<close>

definition toWorld :: "jsnum \<Rightarrow> jsnum \<Rightarrow> jsnum \<Rightarrow> jsnum" where
  "toWorld scale off p = (p - off) / scale"

section \<open>Strings\<close>

text \<open>
  \<^verbatim>\<open>String.prototype.toLowerCase\<close> on the ASCII letters. A \<open>char\<close> is a byte, so a
  character beyond ASCII is left as it is; the key names the handlers compare
  (\<^verbatim>\<open>"x"\<close>, \<^verbatim>\<open>"Alt"\<close>, \<^verbatim>\<open>"ArrowUp"\<close>, ...) are ASCII.
\<close>

definition lower_char :: "char \<Rightarrow> char" where
  "lower_char c =
     (let n = of_char c :: nat in if 65 \<le> n \<and> n \<le> 90 then char_of (n + 32) else c)"

definition toLowerCase :: "string \<Rightarrow> string" where
  "toLowerCase s = map lower_char s"

text \<open>
  \<^verbatim>\<open>parseInt(s, 10)\<close>: leading white space is skipped, one sign is read, then the longest
  run of decimal digits; with no digit the result is \<^verbatim>\<open>NaN\<close>. Whatever follows the digits
  is ignored. (The white space beyond ASCII is several bytes here and is not skipped.)
\<close>

definition isWhiteSpace :: "char \<Rightarrow> bool" where
  "isWhiteSpace c = (let n = of_char c :: nat in (9 \<le> n \<and> n \<le> 13) \<or> n = 32)"

definition isDigit :: "char \<Rightarrow> bool" where
  "isDigit c = (let n = of_char c :: nat in 48 \<le> n \<and> n \<le> 57)"

definition digitsValue :: "string \<Rightarrow> nat" where
  "digitsValue z = foldl (\<lambda>acc c. 10 * acc + (of_char c - 48)) 0 z"

definition parseInt10 :: "string \<Rightarrow> jsnum" where
  "parseInt10 s =
     (let t = dropWhile isWhiteSpace s;
          neg = (t \<noteq> [] \<and> hd t = CHR ''-'');
          u = (if t \<noteq> [] \<and> (hd t = CHR ''-'' \<or> hd t = CHR ''+'') then tl t else t);
          z = takeWhile isDigit u
      in if z = [] then JNaN
         else if neg then JNum (- real (digitsValue z)) else JNum (real (digitsValue z)))"

text \<open>
  \<^verbatim>\<open>Number.prototype.toString()\<close>. An integer below \<^verbatim>\<open>1e21\<close> prints as its decimal
  digits. The digits of any other finite value are those of the shortest decimal that reads
  back as the same double, which exact reals do not carry: they are taken from the
  formatter \<open>fmt\<close> of the JavaScript engine, a parameter.
\<close>

definition digitChar :: "nat \<Rightarrow> char" where
  "digitChar d = char_of (48 + d)"

function decimalDigits :: "nat \<Rightarrow> string" where
  "decimalDigits n =
     (if n < 10 then [digitChar n] else decimalDigits (n div 10) @ [digitChar (n mod 10)])"
  by pat_completeness auto
termination
  by (relation "measure id") auto

declare decimalDigits.simps [simp del]

definition numberToString :: "(real \<Rightarrow> string) \<Rightarrow> jsnum \<Rightarrow> string" where
  "numberToString fmt v =
     (case v of
        JNaN \<Rightarrow> ''NaN''
      | JPosInf \<Rightarrow> ''Infinity''
      | JNegInf \<Rightarrow> ''-Infinity''
      | JNum r \<Rightarrow>
          if r = of_int \<lfloor>r\<rfloor> \<and> \<bar>r\<bar> < 10 ^ 21
          then (if r < 0 then ''-'' else []) @ decimalDigits (nat \<bar>\<lfloor>r\<rfloor>\<bar>)
          else fmt r)"

section \<open>The persistence store\<close>

text \<open>
  \<^verbatim>\<open>localStorage\<close>: its items, and whether reading and writing it throw (storage
  disabled, quota exceeded). A thrown exception is the value \<open>Thrown\<close>.
\<close>

datatype jsexn = Thrown

record storage =
  items :: "string \<rightharpoonup> string"
  readable :: bool
  writable :: bool

definition getItem :: "storage \<Rightarrow> string \<Rightarrow> jsexn + string option" where
  "getItem sto k = (if readable sto then Inr (items sto k) else Inl Thrown)"

definition setItem :: "storage \<Rightarrow> string \<Rightarrow> string \<Rightarrow> jsexn + storage" where
  "setItem sto k v =
     (if writable sto then Inr (sto\<lparr>items := (items sto)(k \<mapsto> v)\<rparr>) else Inl Thrown)"

definition offsetXKey :: string where
  "offsetXKey = ''comfyui_magnify_offset_x''"

definition offsetYKey :: string where
  "offsetYKey = ''comfyui_magnify_offset_y''"

text \<open>
  \<^verbatim>\<open>ConfigManager.loadSavedOffsets\<close> (lines 464-487). Both reads stand before both
  assignments inside the \<^verbatim>\<open>try\<close>; the \<^verbatim>\<open>catch\<close> resets both offsets. The result of
  \<^verbatim>\<open>parseInt\<close> is assigned as it is.
\<close>

definition loadSavedOffsets :: "storage \<Rightarrow> config \<Rightarrow> config" where
  "loadSavedOffsets sto cfg =
     (case getItem sto offsetXKey of
        Inl e \<Rightarrow> cfg\<lparr>offsetX := JNum 0, offsetY := JNum 0\<rparr>
      | Inr savedOffsetX \<Rightarrow>
          (case getItem sto offsetYKey of
             Inl e \<Rightarrow> cfg\<lparr>offsetX := JNum 0, offsetY := JNum 0\<rparr>
           | Inr savedOffsetY \<Rightarrow>
               cfg\<lparr>offsetX := (case savedOffsetX of Some v \<Rightarrow> parseInt10 v | None \<Rightarrow> JNum 0),
                   offsetY := (case savedOffsetY of Some v \<Rightarrow> parseInt10 v | None \<Rightarrow> JNum 0)\<rparr>))"

text \<open>
  \<^verbatim>\<open>ConfigManager.saveOffsets\<close> (lines 489-497): two writes in one \<^verbatim>\<open>try\<close>; a write
  that throws ends the block and is logged only.
\<close>

definition saveOffsets :: "(real \<Rightarrow> string) \<Rightarrow> config \<Rightarrow> storage \<Rightarrow> storage" where
  "saveOffsets fmt cfg sto =
     (case setItem sto offsetXKey (numberToString fmt (offsetX cfg)) of
        Inl e \<Rightarrow> sto
      | Inr sto1 \<Rightarrow>
          (case setItem sto1 offsetYKey (numberToString fmt (offsetY cfg)) of
             Inl e \<Rightarrow> sto1
           | Inr sto2 \<Rightarrow> sto2))"

section \<open>The host page\<close>

text \<open>
  What a handler reads from the page while it runs: the host canvas, its transform, the
  widget tree and the browser's layout. The program never writes it. Each event carries the
  snapshot the handler sees.
\<close>

text \<open>A \<^verbatim>\<open>DOMRect\<close>; \<^verbatim>\<open>right\<close> and \<^verbatim>\<open>bottom\<close> are derived, as in the DOM.\<close>

record domrect =
  dr_left :: jsnum
  dr_top :: jsnum
  dr_width :: jsnum
  dr_height :: jsnum

definition dr_right :: "domrect \<Rightarrow> jsnum" where
  "dr_right r = dr_left r + dr_width r"

definition dr_bottom :: "domrect \<Rightarrow> jsnum" where
  "dr_bottom r = dr_top r + dr_height r"

text \<open>The two derived edges as the browser computes them, in doubles.\<close>

definition dr_right64 :: "domrect \<Rightarrow> jsnum" where
  "dr_right64 r = add64 (dr_left r) (dr_width r)"

definition dr_bottom64 :: "domrect \<Rightarrow> jsnum" where
  "dr_bottom64 r = add64 (dr_top r) (dr_height r)"

text \<open>
  \<^verbatim>\<open>app.canvas.ds\<close>: \<open>ds_scale\<close> is \<open>None\<close> when \<^verbatim>\<open>typeof ds.scale\<close> is not
  \<^verbatim>\<open>'number'\<close>, \<open>ds_offset\<close> is \<open>None\<close> when \<^verbatim>\<open>ds.offset\<close> is missing.
\<close>

record dragscale =
  ds_scale :: "jsnum option"
  ds_offset :: "(jsnum \<times> jsnum) option"

text \<open>
  A widget's DOM element as \<^verbatim>\<open>renderHtmlOverlays\<close> looks at it: its tag, its bounding
  rectangle, and the bounding rectangles of the first \<^verbatim>\<open>video\<close> and \<^verbatim>\<open>img\<close> below it
  (\<^verbatim>\<open>querySelector\<close>).
\<close>

datatype element =
  Element (tagName: string) (bounds: domrect) (innerVideo: "domrect option") (innerImg: "domrect option")

record widget =
  wtype :: string
  welement :: "element option"

text \<open>A node of \<^verbatim>\<open>app.graph._nodes\<close>: its \<^verbatim>\<open>widgets\<close>, when it has any.\<close>

type_synonym node = "widget list option"

record host =
  ds :: "dragscale option"
  canvasRect :: domrect
  canvasWidth :: jsnum
  canvasHeight :: jsnum
  graphNodes :: "node list option option"
  innerWidth :: jsnum
  innerHeight :: jsnum
  glassLayout :: "jsnum option \<Rightarrow> jsnum option \<Rightarrow> domrect"
  texImageThrows :: bool
  formatNumber :: "real \<Rightarrow> string"

text \<open>
  \<open>ds\<close> is \<open>None\<close> when \<^verbatim>\<open>app.canvas\<close> or its \<^verbatim>\<open>ds\<close> is missing. \<open>canvasRect\<close> is
  \<^verbatim>\<open>litegraphCanvas.getBoundingClientRect()\<close>, \<open>canvasWidth\<close> and \<open>canvasHeight\<close> the size
  of its backing store. \<open>graphNodes\<close> is \<open>None\<close> without \<^verbatim>\<open>app.graph\<close> and
  \<open>Some None\<close> without its \<^verbatim>\<open>_nodes\<close>. \<open>glassLayout l t\<close> is what
  \<^verbatim>\<open>glassDiv.getBoundingClientRect()\<close> returns when the glass has the style
  \<^verbatim>\<open>left\<close> \<open>l\<close> and \<^verbatim>\<open>top\<close> \<open>t\<close>. \<open>texImageThrows\<close>: the upload of the canvas
  into the texture throws. \<open>formatNumber\<close>: see \<open>numberToString\<close>.
\<close>

section \<open>The overlay window\<close>

datatype display = DisplayNone | DisplayBlock

datatype cloneKind = TextClone | VideoClone | ImageClone

text \<open>
  A clone appended to the overlay container: its kind and the geometry written to its
  style (\<^verbatim>\<open>left\<close>, \<^verbatim>\<open>top\<close>, \<^verbatim>\<open>width\<close>, \<^verbatim>\<open>height\<close>, \<^verbatim>\<open>transform: scale\<close>).
\<close>

record clone =
  c_kind :: cloneKind
  c_left :: jsnum
  c_top :: jsnum
  c_width :: jsnum
  c_height :: jsnum
  c_scale :: jsnum

text \<open>
  \<^verbatim>\<open>UiManager\<close> after \<^verbatim>\<open>createElements\<close>: the display of the glass container, its
  position (unset until the glass is first placed), the display of the debug canvas when
  there is one, and the children of the overlay container.
\<close>

record uimanager =
  glassDisplay :: display
  glassLeft :: "jsnum option"
  glassTop :: "jsnum option"
  debugCanvas :: "display option"
  htmlOverlay :: "clone list"

text \<open>\<^verbatim>\<open>UiManager.show\<close> (lines 597-602) and \<^verbatim>\<open>UiManager.hide\<close> (lines 604-613).\<close>

definition ui_show :: "config \<Rightarrow> uimanager \<Rightarrow> uimanager" where
  "ui_show cfg u =
     u\<lparr>glassDisplay := DisplayBlock,
       debugCanvas := (if debugMode cfg \<and> debugCanvas u \<noteq> None then Some DisplayBlock
                       else debugCanvas u)\<rparr>"

definition ui_hide :: "config \<Rightarrow> uimanager \<Rightarrow> uimanager" where
  "ui_hide cfg u =
     u\<lparr>glassDisplay := DisplayNone,
       debugCanvas := (if debugMode cfg \<and> debugCanvas u \<noteq> None then Some DisplayNone
                       else debugCanvas u),
       htmlOverlay := []\<rparr>"

text \<open>\<^verbatim>\<open>UiManager.adjustForBoundaries\<close> (lines 670-694).\<close>

definition adjustForBoundaries :: "host \<Rightarrow> jsnum \<Rightarrow> jsnum \<Rightarrow> uimanager \<Rightarrow> uimanager" where
  "adjustForBoundaries h clientX clientY u =
     (let glassRect = glassLayout h (glassLeft u) (glassTop u);
          u1 = (if innerWidth h < dr_right glassRect
                then u\<lparr>glassLeft := Some (clientX - dr_width glassRect - JNum 20)\<rparr> else u);
          currentRectLeft = glassLayout h (glassLeft u1) (glassTop u1);
          u2 = (if dr_left currentRectLeft < JNum 0 then u1\<lparr>glassLeft := Some (JNum 10)\<rparr> else u1);
          u3 = (if innerHeight h < dr_bottom glassRect
                then u2\<lparr>glassTop := Some (clientY - dr_height glassRect - JNum 20)\<rparr> else u2);
          currentRectTop = glassLayout h (glassLeft u3) (glassTop u3)
      in if dr_top currentRectTop < JNum 0 then u3\<lparr>glassTop := Some (JNum 10)\<rparr> else u3)"

text \<open>\<^verbatim>\<open>UiManager.positionGlass\<close> (lines 615-668).\<close>

definition positionGlass :: "config \<Rightarrow> host \<Rightarrow> jsnum \<Rightarrow> jsnum \<Rightarrow> uimanager \<Rightarrow> uimanager" where
  "positionGlass cfg h clientX clientY u =
     (if \<not> followCursor cfg then u
      else
        let size = glassSize cfg;
            offsetAmount = JNum 20;
            pos = glassPosition cfg;
            newLeftTop =
              (if pos = ''Top''
               then (clientX - (size / JNum 2), clientY - size - offsetAmount)
               else if pos = ''Bottom''
               then (clientX - (size / JNum 2), clientY + offsetAmount)
               else if pos = ''Left''
               then (clientX - size - offsetAmount, clientY - (size / JNum 2))
               else if pos = ''Right''
               then (clientX + offsetAmount, clientY - (size / JNum 2))
               else if pos = ''Top-Left''
               then (clientX - size - offsetAmount, clientY - size - offsetAmount)
               else if pos = ''Top-Right''
               then (clientX + offsetAmount, clientY - size - offsetAmount)
               else if pos = ''Bottom-Left''
               then (clientX - size - offsetAmount, clientY + offsetAmount)
               else if pos = ''Bottom-Right''
               then (clientX + offsetAmount, clientY + offsetAmount)
               else (clientX - (size / JNum 2), clientY + offsetAmount))
        in adjustForBoundaries h clientX clientY
             (u\<lparr>glassLeft := Some (fst newLeftTop), glassTop := Some (snd newLeftTop)\<rparr>))"

text \<open>\<^verbatim>\<open>adjustForBoundaries\<close> and \<^verbatim>\<open>positionGlass\<close> with the arithmetic of the program.\<close>

definition adjustForBoundaries64 :: "host \<Rightarrow> jsnum \<Rightarrow> jsnum \<Rightarrow> uimanager \<Rightarrow> uimanager" where
  "adjustForBoundaries64 h clientX clientY u =
     (let glassRect = glassLayout h (glassLeft u) (glassTop u);
          u1 = (if innerWidth h < dr_right64 glassRect
                then u\<lparr>glassLeft := Some (sub64 (sub64 clientX (dr_width glassRect)) (JNum 20))\<rparr>
                else u);
          currentRectLeft = glassLayout h (glassLeft u1) (glassTop u1);
          u2 = (if dr_left currentRectLeft < JNum 0 then u1\<lparr>glassLeft := Some (JNum 10)\<rparr> else u1);
          u3 = (if innerHeight h < dr_bottom64 glassRect
                then u2\<lparr>glassTop := Some (sub64 (sub64 clientY (dr_height glassRect)) (JNum 20))\<rparr>
                else u2);
          currentRectTop = glassLayout h (glassLeft u3) (glassTop u3)
      in if dr_top currentRectTop < JNum 0 then u3\<lparr>glassTop := Some (JNum 10)\<rparr> else u3)"

definition positionGlass64 :: "config \<Rightarrow> host \<Rightarrow> jsnum \<Rightarrow> jsnum \<Rightarrow> uimanager \<Rightarrow> uimanager" where
  "positionGlass64 cfg h clientX clientY u =
     (if \<not> followCursor cfg then u
      else
        let size = glassSize cfg;
            offsetAmount = JNum 20;
            pos = glassPosition cfg;
            newLeftTop =
              (if pos = ''Top''
               then (sub64 clientX (div64 size (JNum 2)), sub64 (sub64 clientY size) offsetAmount)
               else if pos = ''Bottom''
               then (sub64 clientX (div64 size (JNum 2)), add64 clientY offsetAmount)
               else if pos = ''Left''
               then (sub64 (sub64 clientX size) offsetAmount, sub64 clientY (div64 size (JNum 2)))
               else if pos = ''Right''
               then (add64 clientX offsetAmount, sub64 clientY (div64 size (JNum 2)))
               else if pos = ''Top-Left''
               then (sub64 (sub64 clientX size) offsetAmount, sub64 (sub64 clientY size) offsetAmount)
               else if pos = ''Top-Right''
               then (add64 clientX offsetAmount, sub64 (sub64 clientY size) offsetAmount)
               else if pos = ''Bottom-Left''
               then (sub64 (sub64 clientX size) offsetAmount, add64 clientY offsetAmount)
               else if pos = ''Bottom-Right''
               then (add64 clientX offsetAmount, add64 clientY offsetAmount)
               else (sub64 clientX (div64 size (JNum 2)), add64 clientY offsetAmount))
        in adjustForBoundaries64 h clientX clientY
             (u\<lparr>glassLeft := Some (fst newLeftTop), glassTop := Some (snd newLeftTop)\<rparr>))"

section \<open>The overlay compositor\<close>

text \<open>The choice of the element to clone and of its kind (lines 240-269).\<close>

definition classifyWidget :: "widget \<Rightarrow> (cloneKind \<times> domrect) option" where
  "classifyWidget wd =
     (case welement wd of
        None \<Rightarrow> None
      | Some el \<Rightarrow>
          if wtype wd = ''text'' \<or> wtype wd = ''string'' \<or> tagName el = ''TEXTAREA''
          then Some (TextClone, bounds el)
          else if tagName el = ''VIDEO'' then Some (VideoClone, bounds el)
          else if tagName el = ''IMG'' then Some (ImageClone, bounds el)
          else (case innerVideo el of
                  Some r \<Rightarrow> Some (VideoClone, r)
                | None \<Rightarrow> (case innerImg el of
                              Some r \<Rightarrow> Some (ImageClone, r)
                            | None \<Rightarrow> None)))"

text \<open>The widget's rectangle in canvas pixels (lines 272-288).\<close>

definition widgetSourceRect :: "host \<Rightarrow> domrect \<Rightarrow> rect" where
  "widgetSourceRect h widgetRect =
     (let cr = canvasRect h;
          canvasToViewportScaleX =
            (if JNum 0 < dr_width cr then canvasWidth h / dr_width cr else JNum 1);
          canvasToViewportScaleY =
            (if JNum 0 < dr_height cr then canvasHeight h / dr_height cr else JNum 1)
      in \<lparr>rect_x = (dr_left widgetRect - dr_left cr) * canvasToViewportScaleX,
          rect_y = (dr_top widgetRect - dr_top cr) * canvasToViewportScaleY,
          rect_width = dr_width widgetRect * canvasToViewportScaleX,
          rect_height = dr_height widgetRect * canvasToViewportScaleY\<rparr>)"

text \<open>The clone of an overlapping widget and its placement (lines 290-338).\<close>

definition overlaysOfWidget :: "config \<Rightarrow> host \<Rightarrow> rect \<Rightarrow> widget \<Rightarrow> clone list" where
  "overlaysOfWidget cfg h magnifyRect wd =
     (case classifyWidget wd of
        None \<Rightarrow> []
      | Some (k, widgetRect) \<Rightarrow>
          let wsr = widgetSourceRect h widgetRect in
          if rectsOverlap magnifyRect wsr
          then
            let relativeX = rect_x wsr - rect_x magnifyRect;
                relativeY = rect_y wsr - rect_y magnifyRect
            in [\<lparr>c_kind = k,
                  c_left = relativeX * zoomFactor cfg,
                  c_top = relativeY * zoomFactor cfg,
                  c_width = rect_width wsr,
                  c_height = rect_height wsr,
                  c_scale = zoomFactor cfg\<rparr>]
          else [])"

definition overlaysOfNode :: "config \<Rightarrow> host \<Rightarrow> rect \<Rightarrow> node \<Rightarrow> clone list" where
  "overlaysOfNode cfg h magnifyRect nd =
     (case nd of None \<Rightarrow> [] | Some ws \<Rightarrow> concat (map (overlaysOfWidget cfg h magnifyRect) ws))"

section \<open>The magnifier\<close>

text \<open>
  The \<^verbatim>\<open>MagnifyGlass\<close> object with what it owns and the two things of the browser it
  writes: the store, and the queue of callbacks handed to \<^verbatim>\<open>requestAnimationFrame\<close> that
  have not run yet (\<open>pendingFrames\<close>, their number: they are all the same closure).
  \<open>hasRenderer\<close> and \<open>hasCanvas\<close> say that \<^verbatim>\<open>this.renderer\<close> and
  \<^verbatim>\<open>this.litegraphCanvas\<close> are set. \<open>renderCalls\<close> counts the calls of
  \<^verbatim>\<open>WebGLRenderer.render\<close> and \<open>drawCalls\<close> those that reach \<^verbatim>\<open>drawArrays\<close>.
\<close>

record world =
  config :: config
  state :: mstate
  ui :: uimanager
  hasRenderer :: bool
  hasCanvas :: bool
  lastKnownMousePosition :: "jsnum \<times> jsnum"
  localStorage :: storage
  pendingFrames :: nat
  renderCalls :: nat
  drawCalls :: nat

text \<open>\<^verbatim>\<open>MagnifyGlass.updateCanvasTransformation\<close> (lines 140-158).\<close>

definition updateCanvasTransformation :: "host \<Rightarrow> mstate \<Rightarrow> mstate" where
  "updateCanvasTransformation h st =
     (let st0 = st\<lparr>canvasScale := JNum 1, canvasOffsetX := JNum 0, canvasOffsetY := JNum 0\<rparr>
      in case ds h of
           None \<Rightarrow> st0
         | Some d \<Rightarrow>
             let st1 = (case ds_scale d of Some sc \<Rightarrow> st0\<lparr>canvasScale := sc\<rparr> | None \<Rightarrow> st0)
             in case ds_offset d of
                  Some (ox, oy) \<Rightarrow> st1\<lparr>canvasOffsetX := or_zero ox, canvasOffsetY := or_zero oy\<rparr>
                | None \<Rightarrow> st1)"

text \<open>
  \<^verbatim>\<open>MagnifyGlass.updateMagnifiedView\<close> (lines 106-138), up to the call of
  \<^verbatim>\<open>requestAnimationFrame\<close>: the callback is queued, not run.
\<close>

definition updateMagnifiedView :: "host \<Rightarrow> world \<Rightarrow> world" where
  "updateMagnifiedView h w =
     (if \<not> active (state w) \<or> \<not> hasRenderer w \<or> \<not> hasCanvas w then w
      else
        let st = calculateSourceRegion (config w) (updateCanvasTransformation h (state w))
        in if \<not> isRenderScheduled st
           then w\<lparr>state := st\<lparr>isRenderScheduled := True\<rparr>,
                  pendingFrames := Suc (pendingFrames w)\<rparr>
           else w\<lparr>state := st\<rparr>)"

text \<open>\<^verbatim>\<open>updateMagnifiedView\<close> with the arithmetic of the program.\<close>

definition updateMagnifiedView64 :: "host \<Rightarrow> world \<Rightarrow> world" where
  "updateMagnifiedView64 h w =
     (if \<not> active (state w) \<or> \<not> hasRenderer w \<or> \<not> hasCanvas w then w
      else
        let st = calculateSourceRegion64 (config w) (updateCanvasTransformation h (state w))
        in if \<not> isRenderScheduled st
           then w\<lparr>state := st\<lparr>isRenderScheduled := True\<rparr>,
                  pendingFrames := Suc (pendingFrames w)\<rparr>
           else w\<lparr>state := st\<rparr>)"

text \<open>
  \<^verbatim>\<open>WebGLRenderer.render\<close> (lines 856-900): the upload of the canvas, then the draw. A
  failed upload is logged and the draw is skipped. The uniforms are written to the GPU and
  read by nothing here.
\<close>

definition render :: "host \<Rightarrow> world \<Rightarrow> world" where
  "render h w =
     (let w1 = w\<lparr>renderCalls := Suc (renderCalls w)\<rparr>
      in if texImageThrows h then w1 else w1\<lparr>drawCalls := Suc (drawCalls w1)\<rparr>)"

text \<open>\<^verbatim>\<open>MagnifyGlass.renderHtmlOverlays\<close> (lines 218-343).\<close>

definition renderHtmlOverlays :: "host \<Rightarrow> world \<Rightarrow> world" where
  "renderHtmlOverlays h w =
     (let cleared = w\<lparr>ui := (ui w)\<lparr>htmlOverlay := []\<rparr>\<rparr>
      in if \<not> active (state w) \<or> graphNodes h = None \<or> \<not> hasCanvas w then cleared
         else
           let magnifyRect =
                 \<lparr>rect_x = sourceX (state w), rect_y = sourceY (state w),
                  rect_width = sourceWidth (state w), rect_height = sourceHeight (state w)\<rparr>
           in case graphNodes h of
                Some (Some nodes) \<Rightarrow>
                  w\<lparr>ui := (ui w)\<lparr>htmlOverlay :=
                         concat (map (overlaysOfNode (config w) h magnifyRect) nodes)\<rparr>\<rparr>
              | _ \<Rightarrow> cleared)"

text \<open>
  The callback given to \<^verbatim>\<open>requestAnimationFrame\<close> (lines 121-136). The debug view it
  draws changes nothing that is modelled.
\<close>

definition frameCallback :: "host \<Rightarrow> world \<Rightarrow> world" where
  "frameCallback h w =
     (if \<not> active (state w) \<or> \<not> hasRenderer w \<or> \<not> hasCanvas w
      then w\<lparr>state := (state w)\<lparr>isRenderScheduled := False\<rparr>\<rparr>
      else
        let w1 = renderHtmlOverlays h (render h w)
        in w1\<lparr>state := (state w1)\<lparr>isRenderScheduled := False\<rparr>\<rparr>)"

text \<open>
  A frame tick of the browser: every callback queued before the tick runs once, and the
  queue is empty afterwards (the callback queues nothing).
\<close>

definition animationFrame :: "host \<Rightarrow> world \<Rightarrow> world" where
  "animationFrame h w = ((frameCallback h) ^^ (pendingFrames w)) (w\<lparr>pendingFrames := 0\<rparr>)"

text \<open>\<^verbatim>\<open>MagnifyGlass.resetOffsets\<close> (lines 409-417).\<close>

definition resetOffsets :: "host \<Rightarrow> world \<Rightarrow> world" where
  "resetOffsets h w =
     (let cfg = (config w)\<lparr>offsetX := JNum 0, offsetY := JNum 0\<rparr>;
          w1 = w\<lparr>config := cfg, localStorage := saveOffsets (formatNumber h) cfg (localStorage w)\<rparr>
      in if active (state w1) then updateMagnifiedView h w1 else w1)"

section \<open>The event handlers\<close>

record key_event =
  key :: string
  altKey :: bool
  shiftKey :: bool

record mouse_event =
  clientX :: jsnum
  clientY :: jsnum

text \<open>The scale from CSS pixels to canvas pixels (lines 1043-1044 and 1074-1075).\<close>

definition cssToCanvasScale :: "jsnum \<Rightarrow> jsnum \<Rightarrow> jsnum" where
  "cssToCanvasScale canvasSize rectSize =
     (if JNum 0 < rectSize then canvasSize / rectSize else JNum 1)"

definition cssToCanvasScale64 :: "jsnum \<Rightarrow> jsnum \<Rightarrow> jsnum" where
  "cssToCanvasScale64 canvasSize rectSize =
     (if JNum 0 < rectSize then div64 canvasSize rectSize else JNum 1)"

text \<open>\<^verbatim>\<open>EventHandler.updateInitialPosition\<close> (lines 1057-1087).\<close>

definition updateInitialPosition :: "host \<Rightarrow> world \<Rightarrow> world" where
  "updateInitialPosition h w =
     (if \<not> hasCanvas w then w
      else
        let r = canvasRect h;
            cx = fst (lastKnownMousePosition w);
            cy = snd (lastKnownMousePosition w)
        in if dr_left r \<le> cx \<and> cx \<le> dr_right r \<and> dr_top r \<le> cy \<and> cy \<le> dr_bottom r
           then
             let cssMouseXOnCanvas = cx - dr_left r;
                 cssMouseYOnCanvas = cy - dr_top r;
                 pixelX = cssMouseXOnCanvas * cssToCanvasScale (canvasWidth h) (dr_width r);
                 pixelY = cssMouseYOnCanvas * cssToCanvasScale (canvasHeight h) (dr_height r)
             in updateMagnifiedView h
                  (w\<lparr>state := (state w)\<lparr>cursorX := pixelX, cursorY := pixelY\<rparr>,
                     ui := positionGlass (config w) h cx cy (ui w)\<rparr>)
           else w)"

text \<open>
  \<^verbatim>\<open>EventHandler.handleKeyDown\<close> (lines 929-985) in its two blocks: the activation
  (lines 934-943), then the manual offset keys (lines 946-984), which see the state the
  activation left. \<^verbatim>\<open>preventDefault\<close> acts on the browser only. The calls into the DOM
  are taken to return: the source catches what it expects to throw (the reads and writes
  of the store, the texture upload), and those are the failures modelled.
\<close>

definition activates :: "config \<Rightarrow> key_event \<Rightarrow> bool" where
  "activates cfg e = (toLowerCase (key e) = activationKey cfg \<and> (\<not> altRequired cfg \<or> altKey e))"

definition activation :: "host \<Rightarrow> key_event \<Rightarrow> world \<Rightarrow> world" where
  "activation h e w =
     (if activates (config w) e \<and> \<not> active (state w)
      then updateInitialPosition h
             (w\<lparr>state := (state w)\<lparr>active := True\<rparr>, ui := ui_show (config w) (ui w)\<rparr>)
      else w)"

definition offsetKeys :: "host \<Rightarrow> key_event \<Rightarrow> world \<Rightarrow> world" where
  "offsetKeys h e w =
     (if active (state w)
      then
        let cfg = config w;
            stepSize = (if shiftKey e then offsetStep cfg * JNum 5 else offsetStep cfg);
            changed =
              (if key e = ''ArrowUp'' then Some (cfg\<lparr>offsetY := offsetY cfg - stepSize\<rparr>)
               else if key e = ''ArrowDown'' then Some (cfg\<lparr>offsetY := offsetY cfg + stepSize\<rparr>)
               else if key e = ''ArrowLeft'' then Some (cfg\<lparr>offsetX := offsetX cfg - stepSize\<rparr>)
               else if key e = ''ArrowRight'' then Some (cfg\<lparr>offsetX := offsetX cfg + stepSize\<rparr>)
               else if toLowerCase (key e) = toLowerCase (resetKey cfg)
                       \<and> (\<not> resetAltRequired cfg \<or> altKey e)
               then Some (cfg\<lparr>offsetX := JNum 0, offsetY := JNum 0\<rparr>)
               else None)
        in case changed of
             Some cfg' \<Rightarrow>
               updateMagnifiedView h
                 (w\<lparr>config := cfg',
                    localStorage := saveOffsets (formatNumber h) cfg' (localStorage w)\<rparr>)
           | None \<Rightarrow> w
      else w)"

definition handleKeyDown :: "host \<Rightarrow> key_event \<Rightarrow> world \<Rightarrow> world" where
  "handleKeyDown h e w = offsetKeys h e (activation h e w)"

text \<open>\<^verbatim>\<open>EventHandler.handleKeyUp\<close> (lines 987-1023).\<close>

definition handleKeyUp :: "host \<Rightarrow> key_event \<Rightarrow> world \<Rightarrow> world" where
  "handleKeyUp h e w =
     (let cfg = config w in
      if toLowerCase (key e) = activationKey cfg \<or> (altRequired cfg \<and> key e = ''Alt'')
      then
        let shouldDeactivate =
              (if altRequired cfg
               then key e = ''Alt'' \<or> toLowerCase (key e) = activationKey cfg
               else toLowerCase (key e) = activationKey cfg)
        in if active (state w) \<and> shouldDeactivate
           then w\<lparr>state := (state w)\<lparr>active := False\<rparr>, ui := ui_hide cfg (ui w)\<rparr>
           else w
      else w)"

text \<open>\<^verbatim>\<open>EventHandler.handleMouseMove\<close> (lines 1025-1055).\<close>

definition handleMouseMove :: "host \<Rightarrow> mouse_event \<Rightarrow> world \<Rightarrow> world" where
  "handleMouseMove h e w =
     (let w1 = w\<lparr>lastKnownMousePosition := (clientX e, clientY e)\<rparr>
      in if \<not> active (state w1) \<or> \<not> hasCanvas w1 then w1
         else
           let r = canvasRect h;
               cssMouseXOnCanvas = clientX e - dr_left r;
               cssMouseYOnCanvas = clientY e - dr_top r
           in if JNum 0 \<le> cssMouseXOnCanvas \<and> cssMouseXOnCanvas \<le> dr_width r \<and>
                 JNum 0 \<le> cssMouseYOnCanvas \<and> cssMouseYOnCanvas \<le> dr_height r
              then
                let pixelX = cssMouseXOnCanvas * cssToCanvasScale (canvasWidth h) (dr_width r);
                    pixelY = cssMouseYOnCanvas * cssToCanvasScale (canvasHeight h) (dr_height r)
                in updateMagnifiedView h
                     (w1\<lparr>state := (state w1)\<lparr>cursorX := pixelX, cursorY := pixelY\<rparr>,
                        ui := positionGlass (config w1) h (clientX e) (clientY e) (ui w1)\<rparr>)
              else w1)"

text \<open>
  \<^verbatim>\<open>EventHandler.handleMouseMove\<close> with the arithmetic of the program: the two
  subtractions, the two scales and the two products round their results.
\<close>

definition handleMouseMove64 :: "host \<Rightarrow> mouse_event \<Rightarrow> world \<Rightarrow> world" where
  "handleMouseMove64 h e w =
     (let w1 = w\<lparr>lastKnownMousePosition := (clientX e, clientY e)\<rparr>
      in if \<not> active (state w1) \<or> \<not> hasCanvas w1 then w1
         else
           let r = canvasRect h;
               cssMouseXOnCanvas = sub64 (clientX e) (dr_left r);
               cssMouseYOnCanvas = sub64 (clientY e) (dr_top r)
           in if JNum 0 \<le> cssMouseXOnCanvas \<and> cssMouseXOnCanvas \<le> dr_width r \<and>
                 JNum 0 \<le> cssMouseYOnCanvas \<and> cssMouseYOnCanvas \<le> dr_height r
              then
                let pixelX = mul64 cssMouseXOnCanvas (cssToCanvasScale64 (canvasWidth h) (dr_width r));
                    pixelY = mul64 cssMouseYOnCanvas (cssToCanvasScale64 (canvasHeight h) (dr_height r))
                in updateMagnifiedView64 h
                     (w1\<lparr>state := (state w1)\<lparr>cursorX := pixelX, cursorY := pixelY\<rparr>,
                        ui := positionGlass64 (config w1) h (clientX e) (clientY e) (ui w1)\<rparr>)
              else w1)"

section \<open>The step relation\<close>

datatype event = KeyDown key_event | KeyUp key_event | MouseMove mouse_event | AnimationFrame

definition step :: "host \<Rightarrow> event \<Rightarrow> world \<Rightarrow> world" where
  "step h ev w =
     (case ev of
        KeyDown e \<Rightarrow> handleKeyDown h e w
      | KeyUp e \<Rightarrow> handleKeyUp h e w
      | MouseMove e \<Rightarrow> handleMouseMove h e w
      | AnimationFrame \<Rightarrow> animationFrame h w)"

fun run :: "(host \<times> event) list \<Rightarrow> world \<Rightarrow> world" where
  "run [] w = w"
| "run ((h, ev) # evs) w = run evs (step h ev w)"

text \<open>
  The magnifier when \<^verbatim>\<open>init\<close> (lines 60-97) has attached the listeners: the offsets are
  loaded, the elements are created (the glass with \<^verbatim>\<open>display: none\<close>, the debug canvas
  only in debug mode), the renderer is valid and the host canvas is found. On every other
  path \<^verbatim>\<open>init\<close> returns before \<^verbatim>\<open>attachListeners\<close> and no handler ever runs.
\<close>

definition freshState :: mstate where
  "freshState =
     \<lparr>active = False, cursorX = JNum 0, cursorY = JNum 0, sourceX = JNum 0, sourceY = JNum 0,
      sourceWidth = JNum 0, sourceHeight = JNum 0, canvasScale = JNum 1, canvasOffsetX = JNum 0,
      canvasOffsetY = JNum 0, isRenderScheduled = False\<rparr>"

definition initial :: "config \<Rightarrow> storage \<Rightarrow> world" where
  "initial cfg sto =
     \<lparr>config = loadSavedOffsets sto cfg,
      state = freshState,
      ui = \<lparr>glassDisplay = DisplayNone, glassLeft = None, glassTop = None,
            debugCanvas = (if debugMode cfg then Some DisplayNone else None),
            htmlOverlay = []\<rparr>,
      hasRenderer = True,
      hasCanvas = True,
      lastKnownMousePosition = (JNum 0, JNum 0),
      localStorage = sto,
      pendingFrames = 0,
      renderCalls = 0,
      drawCalls = 0\<rparr>"

inductive reachable :: "world \<Rightarrow> bool" where
  reachable_initial: "reachable (initial cfg sto)"
| reachable_step: "reachable w \<Longrightarrow> reachable (step h ev w)"

section \<open>The properties, as predicates\<close>

text \<open>
  The sample rectangle of \<open>st'\<close> is centred on the cursor of \<open>st\<close>: its centre, taken
  back through the host transform, is the cursor's world position plus the manual offset,
  and its width and height are \<^verbatim>\<open>glassSize / zoomFactor\<close>. Equality is \<^verbatim>\<open>===\<close>.
\<close>

definition centredOnCursor :: "config \<Rightarrow> mstate \<Rightarrow> mstate \<Rightarrow> bool" where
  "centredOnCursor cfg st st' =
     (strict_eq (toWorld (canvasScale st) (canvasOffsetX st) (sourceX st' + sourceWidth st' / JNum 2))
                (toWorld (canvasScale st) (canvasOffsetX st) (cursorX st) + offsetX cfg) \<and>
      strict_eq (toWorld (canvasScale st) (canvasOffsetY st) (sourceY st' + sourceHeight st' / JNum 2))
                (toWorld (canvasScale st) (canvasOffsetY st) (cursorY st) + offsetY cfg) \<and>
      strict_eq (sourceWidth st') (glassSize cfg / zoomFactor cfg) \<and>
      strict_eq (sourceHeight st') (glassSize cfg / zoomFactor cfg))"

text \<open>
  The sample rectangle of \<open>st'\<close> is centred on the cursor of \<open>st\<close> up to a distance
  \<open>tolCentre\<close> in world units and a difference \<open>tolSize\<close> in pixels: the four numbers of
  the rectangle are finite, its centre, taken back through the host transform, is within
  \<open>tolCentre\<close> of the cursor's world position plus the manual offset on each axis, and its
  width and height are within \<open>tolSize\<close> of \<^verbatim>\<open>glassSize / zoomFactor\<close>. The relation is
  between real numbers: only the rectangle is computed in doubles.
\<close>

definition finiteValue :: "jsnum \<Rightarrow> real option" where
  "finiteValue v = (case v of JNum x \<Rightarrow> Some x | _ \<Rightarrow> None)"

definition axisCentredWithin :: "real \<Rightarrow> real option \<Rightarrow> real option \<Rightarrow> real option \<Rightarrow>
    real option \<Rightarrow> real option \<Rightarrow> real option \<Rightarrow> bool" where
  "axisCentredWithin tol scale off cursor manual corner extent =
     (case (scale, off, cursor, manual, corner, extent) of
        (Some s, Some o', Some c, Some m, Some x, Some w) \<Rightarrow>
          \<bar>((x + w / 2) - o') / s - ((c - o') / s + m)\<bar> \<le> tol
      | _ \<Rightarrow> False)"

definition sizeWithin :: "real \<Rightarrow> real option \<Rightarrow> real option \<Rightarrow> real option \<Rightarrow> bool" where
  "sizeWithin tol glass zoom extent =
     (case (glass, zoom, extent) of
        (Some g, Some z, Some w) \<Rightarrow> \<bar>w - g / z\<bar> \<le> tol
      | _ \<Rightarrow> False)"

definition centredWithin :: "real \<Rightarrow> real \<Rightarrow> config \<Rightarrow> mstate \<Rightarrow> mstate \<Rightarrow> bool" where
  "centredWithin tolCentre tolSize cfg st st' =
     (axisCentredWithin tolCentre (finiteValue (canvasScale st)) (finiteValue (canvasOffsetX st))
        (finiteValue (cursorX st)) (finiteValue (offsetX cfg))
        (finiteValue (sourceX st')) (finiteValue (sourceWidth st')) \<and>
      axisCentredWithin tolCentre (finiteValue (canvasScale st)) (finiteValue (canvasOffsetY st))
        (finiteValue (cursorY st)) (finiteValue (offsetY cfg))
        (finiteValue (sourceY st')) (finiteValue (sourceHeight st')) \<and>
      sizeWithin tolSize (finiteValue (glassSize cfg)) (finiteValue (zoomFactor cfg))
        (finiteValue (sourceWidth st')) \<and>
      sizeWithin tolSize (finiteValue (glassSize cfg)) (finiteValue (zoomFactor cfg))
        (finiteValue (sourceHeight st')))"

text \<open>
  The pointer is outside the client rectangle of the host canvas, on one side at least; the
  right and bottom edges are those the browser reports.
\<close>

definition outsideCanvas64 :: "host \<Rightarrow> mouse_event \<Rightarrow> bool" where
  "outsideCanvas64 h e =
     (clientX e < dr_left (canvasRect h) \<or> dr_right64 (canvasRect h) < clientX e \<or>
      clientY e < dr_top (canvasRect h) \<or> dr_bottom64 (canvasRect h) < clientY e)"

text \<open>
  The pointer is outside the canvas as the handler measures it: its position relative to
  the left and top edges, which the handler computes by a rounded subtraction, is below
  zero or above the width or the height of the rectangle.
\<close>

definition measuredOutside :: "host \<Rightarrow> mouse_event \<Rightarrow> bool" where
  "measuredOutside h e =
     (let cssMouseXOnCanvas = sub64 (clientX e) (dr_left (canvasRect h));
          cssMouseYOnCanvas = sub64 (clientY e) (dr_top (canvasRect h))
      in cssMouseXOnCanvas < JNum 0 \<or> dr_width (canvasRect h) < cssMouseXOnCanvas \<or>
         cssMouseYOnCanvas < JNum 0 \<or> dr_height (canvasRect h) < cssMouseYOnCanvas)"

definition arrowKeys :: "string list" where
  "arrowKeys = [''ArrowUp'', ''ArrowDown'', ''ArrowLeft'', ''ArrowRight'']"

text \<open>
  The key press that takes the reset branch (lines 969-970): the reset key, in either
  case, with Alt when the configuration asks for it. The four arrow keys are tested first.
\<close>

definition isResetPress :: "config \<Rightarrow> key_event \<Rightarrow> bool" where
  "isResetPress cfg e =
     (key e \<notin> set arrowKeys \<and> toLowerCase (key e) = toLowerCase (resetKey cfg) \<and>
      (\<not> resetAltRequired cfg \<or> altKey e))"

definition offsetsZero :: "world \<Rightarrow> bool" where
  "offsetsZero w = (offsetX (config w) = JNum 0 \<and> offsetY (config w) = JNum 0)"

definition persistedZero :: "world \<Rightarrow> bool" where
  "persistedZero w =
     (items (localStorage w) offsetXKey = Some ''0'' \<and>
      items (localStorage w) offsetYKey = Some ''0'')"

text \<open>
  The pending flag says what the browser's queue holds: one callback when it is set, none
  when it is clear.
\<close>

definition flagMatchesQueue :: "world \<Rightarrow> bool" where
  "flagMatchesQueue w = (pendingFrames w = (if isRenderScheduled (state w) then 1 else 0))"

text \<open>The glass is displayed exactly when the magnifier is active, and holds no clone when it is not.\<close>

definition overlayInvariant :: "world \<Rightarrow> bool" where
  "overlayInvariant w =
     ((glassDisplay (ui w) = DisplayBlock) = active (state w) \<and>
      (active (state w) \<or> htmlOverlay (ui w) = []))"

text \<open>No frame tick among the events.\<close>

definition noFrame :: "(host \<times> event) list \<Rightarrow> bool" where
  "noFrame evs = list_all (\<lambda>p. snd p \<noteq> AnimationFrame) evs"

section \<open>Example inputs\<close>

text \<open>\<^verbatim>\<open>DEFAULT_SETTINGS\<close> (lines 14-30), with the offsets of a fresh \<^verbatim>\<open>ConfigManager\<close>.\<close>

definition defaultConfig :: config where
  "defaultConfig =
     \<lparr>zoomFactor = JNum 3, glassSize = JNum 300, activationKey = ''x'', altRequired = True,
      followCursor = True, debugMode = False, offsetStep = JNum 5, glassPosition = ''Bottom'',
      resetKey = ''r'', resetAltRequired = True, offsetX = JNum 0, offsetY = JNum 0\<rparr>"

definition emptyStorage :: storage where
  "emptyStorage = \<lparr>items = Map.empty, readable = True, writable = True\<rparr>"

definition malformedStorage :: storage where
  "malformedStorage = \<lparr>items = [offsetXKey \<mapsto> ''abc''], readable = True, writable = True\<rparr>"

text \<open>An 800 by 600 canvas at the origin of the viewport, unscaled, with no node.\<close>

definition exampleHost :: host where
  "exampleHost =
     \<lparr>ds = Some \<lparr>ds_scale = Some (JNum 1), ds_offset = Some (JNum 0, JNum 0)\<rparr>,
      canvasRect = \<lparr>dr_left = JNum 0, dr_top = JNum 0, dr_width = JNum 800, dr_height = JNum 600\<rparr>,
      canvasWidth = JNum 800,
      canvasHeight = JNum 600,
      graphNodes = Some (Some []),
      innerWidth = JNum 2000,
      innerHeight = JNum 2000,
      glassLayout = (\<lambda>l t. \<lparr>dr_left = (case l of Some v \<Rightarrow> v | None \<Rightarrow> JNum 0),
                               dr_top = (case t of Some v \<Rightarrow> v | None \<Rightarrow> JNum 0),
                               dr_width = JNum 304, dr_height = JNum 304\<rparr>),
      texImageThrows = False,
      formatNumber = (\<lambda>r. [])\<rparr>"

text \<open>A canvas zoomed to 2 and panned by \<open>(10, -20)\<close>, the cursor at \<open>(100, 60)\<close>.\<close>

definition pannedState :: mstate where
  "pannedState =
     freshState\<lparr>cursorX := JNum 100, cursorY := JNum 60, canvasScale := JNum 2,
                canvasOffsetX := JNum 10, canvasOffsetY := JNum (- 20)\<rparr>"

definition nudgedConfig :: config where
  "nudgedConfig = defaultConfig\<lparr>offsetX := JNum 7, offsetY := JNum (- 3)\<rparr>"

definition cursorAt100 :: mstate where
  "cursorAt100 = freshState\<lparr>cursorX := JNum 100, cursorY := JNum 100\<rparr>"

text \<open>
  A zoom factor of 2.5 and a host scale of 0.9, that is the double nearest to it,
  \<open>8106479329266893 / 2 ^ 53\<close>.
\<close>

definition zoomedConfig :: config where
  "zoomedConfig = defaultConfig\<lparr>zoomFactor := JNum (5 / 2)\<rparr>"

definition scaledState :: mstate where
  "scaledState = cursorAt100\<lparr>canvasScale := JNum (8106479329266893 / 9007199254740992)\<rparr>"

definition square10 :: rect where
  "square10 = \<lparr>rect_x = JNum 0, rect_y = JNum 0, rect_width = JNum 10, rect_height = JNum 10\<rparr>"

definition neighbour :: rect where
  "neighbour = \<lparr>rect_x = JNum 10, rect_y = JNum 0, rect_width = JNum 5, rect_height = JNum 5\<rparr>"

definition pressActivation :: key_event where
  "pressActivation = \<lparr>key = ''x'', altKey = True, shiftKey = False\<rparr>"


definition pressShiftArrowUp :: key_event where
  "pressShiftArrowUp = \<lparr>key = ''ArrowUp'', altKey = False, shiftKey = True\<rparr>"

definition pressReset :: key_event where
  "pressReset = \<lparr>key = ''R'', altKey = True, shiftKey = False\<rparr>"

definition moveInside :: mouse_event where
  "moveInside = \<lparr>clientX = JNum 100, clientY = JNum 100\<rparr>"

definition moveInsideAgain :: mouse_event where
  "moveInsideAgain = \<lparr>clientX = JNum 120, clientY = JNum 100\<rparr>"

definition moveOutside :: mouse_event where
  "moveOutside = \<lparr>clientX = JNum 900, clientY = JNum 10\<rparr>"

text \<open>
  The example page with the canvas laid out at \<^verbatim>\<open>left: 128.3\<close> and \<^verbatim>\<open>width: 800.3\<close>, and
  a pointer at \<^verbatim>\<open>clientX: 928.6\<close>: the three doubles nearest to these decimals.
\<close>

definition shiftedHost :: host where
  "shiftedHost =
     exampleHost\<lparr>canvasRect :=
       \<lparr>dr_left = JNum (2257077469498573 / 17592186044416), dr_top = JNum 0,
        dr_width = JNum (3519756622836531 / 4398046511104), dr_height = JNum 600\<rparr>\<rparr>"

definition moveBeyondRight :: mouse_event where
  "moveBeyondRight = \<lparr>clientX = JNum (8168051980422349 / 8796093022208), clientY = JNum 10\<rparr>"

definition startWorld :: world where
  "startWorld = initial defaultConfig emptyStorage"

definition activatedWorld :: world where
  "activatedWorld = step exampleHost (KeyDown pressActivation) startWorld"

text \<open>The active magnifier after the frame that follows the activation.\<close>

definition settledWorld :: world where
  "settledWorld = step exampleHost AnimationFrame activatedWorld"

text \<open>An active magnifier whose offsets have been nudged to \<open>(7, -3)\<close>.\<close>

definition nudgedWorld :: world where
  "nudgedWorld = startWorld\<lparr>config := nudgedConfig, state := freshState\<lparr>active := True\<rparr>\<rparr>"

definition twoMoves :: "(host \<times> event) list" where
  "twoMoves =
     [(exampleHost, KeyDown pressActivation),
      (exampleHost, MouseMove moveInside),
      (exampleHost, MouseMove moveInsideAgain)]"

section \<open>The error of a rounding\<close>

text \<open>The exponent by halving and doubling, for evaluation.\<close>

lemma ilog2_code [code]:
  "ilog2 x = (if x \<le> 0 then 0 else if x < 1 then ilog2 (2 * x) - 1
              else if 2 \<le> x then ilog2 (x / 2) + 1 else 0)"
proof -
  have a: "\<lfloor>log 2 (2 * x)\<rfloor> - 1 = \<lfloor>log 2 x\<rfloor>" if "0 < x"
    using that by (simp add: log_mult)
  have b: "\<lfloor>log 2 (x / 2)\<rfloor> + 1 = \<lfloor>log 2 x\<rfloor>" if "0 < x"
    using that by (simp add: log_divide)
  have c: "\<lfloor>log 2 x\<rfloor> = 0" if "1 \<le> x" "x < 2"
  proof -
    have "0 \<le> log 2 x" using that by simp
    moreover have "log 2 x < 1" using that by (simp add: log_less_iff)
    ultimately show ?thesis by linarith
  qed
  show ?thesis
    using a b c by (auto simp: ilog2_def)
qed


lemma ilog2_eqI:
  assumes "2 powi e \<le> x" and "x < 2 powi (e + 1)"
  shows "ilog2 x = e"
proof -
  have "(0::real) < 2 powi e" by simp
  then have pos: "0 < x" using assms(1) by linarith
  have p1: "(2::real) powr real_of_int e = 2 powi e"
    by (rule powr_real_of_int') simp_all
  have p2: "(2::real) powr real_of_int (e + 1) = 2 powi (e + 1)"
    by (rule powr_real_of_int') simp_all
  have "(2::real) powr real_of_int e \<le> x \<and> x < (2::real) powr real_of_int (e + 1)"
    unfolding p1 p2 using assms by blast
  then have "\<lfloor>log 2 x\<rfloor> = e"
    using floor_log_eq_powr_iff [of x 2 e] pos by linarith
  then show ?thesis using pos by (simp add: ilog2_def)
qed

lemma ilog2_bounds:
  assumes "0 < x"
  shows "2 powi (ilog2 x) \<le> x \<and> x < 2 powi (ilog2 x + 1)"
proof -
  have "\<lfloor>log 2 x\<rfloor> = ilog2 x" using assms by (simp add: ilog2_def)
  then have "(2::real) powr real_of_int (ilog2 x) \<le> x \<and> x < (2::real) powr real_of_int (ilog2 x + 1)"
    using assms floor_log_eq_powr_iff [of x 2 "ilog2 x"] by linarith
  moreover have "(2::real) powr real_of_int (ilog2 x) = 2 powi (ilog2 x)"
    by (rule powr_real_of_int') simp_all
  moreover have "(2::real) powr real_of_int (ilog2 x + 1) = 2 powi (ilog2 x + 1)"
    by (rule powr_real_of_int') simp_all
  ultimately show ?thesis by metis
qed

text \<open>The nearest integer is within a half; a real within less than a half of an integer rounds to it.\<close>

lemma roundHalfEven_near:
  assumes "\<bar>m - of_int n\<bar> < 1 / 2"
  shows "roundHalfEven m = n"
proof -
  have "\<lfloor>m\<rfloor> = n \<or> \<lfloor>m\<rfloor> = n - 1" using assms by linarith
  then show ?thesis
  proof
    assume f: "\<lfloor>m\<rfloor> = n"
    then have "m - of_int n < 1 / 2" using assms by linarith
    then show ?thesis using f by (simp add: roundHalfEven_def Let_def)
  next
    assume f: "\<lfloor>m\<rfloor> = n - 1"
    have "1 / 2 < m - (of_int n - 1)" using assms by linarith
    then show ?thesis using f by (simp add: roundHalfEven_def Let_def)
  qed
qed

lemma roundHalfEven_error: "\<bar>of_int (roundHalfEven m) - m\<bar> \<le> 1 / 2"
  unfolding roundHalfEven_def Let_def by (simp; linarith)

lemma roundHalfEven_tie:
  assumes "m = of_int f + 1 / 2" and "even f"
  shows "roundHalfEven m = f"
proof -
  have "\<lfloor>m\<rfloor> = f" using assms(1) by linarith
  then show ?thesis using assms by (simp add: roundHalfEven_def Let_def)
qed

text \<open>
  The error of one rounding, away from overflow: at most the fraction \<open>1 / 2 ^ 53\<close> of the
  magnitude, and at most \<open>1 / 2 ^ 1075\<close> where the doubles are subnormal.
\<close>

lemma round64_error:
  assumes "\<bar>x\<bar> \<le> 2 ^ 1000"
  shows "\<exists>y. round64 x = JNum y \<and> \<bar>y - x\<bar> \<le> \<bar>x\<bar> / 2 ^ 53 + 1 / 2 ^ 1075"
proof (cases "x = 0")
  case True
  then show ?thesis by (simp add: round64_def)
next
  case False
  define e where "e = max (ilog2 \<bar>x\<bar>) (- 1022)"
  define q :: real where "q = 2 powi (e - 52)"
  define y where "y = of_int (roundHalfEven (x / q)) * q"
  have qpos: "0 < q" by (simp add: q_def)
  have "\<bar>of_int (roundHalfEven (x / q)) - x / q\<bar> \<le> 1 / 2" by (rule roundHalfEven_error)
  then have "\<bar>of_int (roundHalfEven (x / q)) - x / q\<bar> * q \<le> 1 / 2 * q"
    using qpos by (intro mult_right_mono) simp_all
  moreover have "\<bar>of_int (roundHalfEven (x / q)) - x / q\<bar> * q = \<bar>y - x\<bar>"
  proof -
    have "\<bar>of_int (roundHalfEven (x / q)) - x / q\<bar> * q = \<bar>(of_int (roundHalfEven (x / q)) - x / q) * q\<bar>"
      using qpos by (simp add: abs_mult)
    also have "(of_int (roundHalfEven (x / q)) - x / q) * q = y - x"
      using qpos by (simp add: y_def algebra_simps)
    finally show ?thesis .
  qed
  ultimately have yq: "\<bar>y - x\<bar> \<le> q / 2" by simp
  have qb: "q / 2 \<le> \<bar>x\<bar> / 2 ^ 53 + 1 / 2 ^ 1075"
  proof (cases "- 1022 \<le> ilog2 \<bar>x\<bar>")
    case True
    then have "e = ilog2 \<bar>x\<bar>" by (simp add: e_def)
    then have "2 powi e \<le> \<bar>x\<bar>" using ilog2_bounds [of "\<bar>x\<bar>"] False by simp
    moreover have "q = 2 powi e / 2 ^ 52" by (simp add: q_def power_int_diff)
    ultimately have "q / 2 \<le> \<bar>x\<bar> / 2 ^ 53" by simp
    moreover have "(0::real) \<le> 1 / 2 ^ 1075" by simp
    ultimately show ?thesis by linarith
  next
    case False
    then have "e = - 1022" by (simp add: e_def)
    then have "q = 2 powi (- 1074)" by (simp add: q_def)
    then have "q / 2 = 1 / 2 ^ 1075" by (simp add: power_int_minus_divide)
    then show ?thesis by simp
  qed
  have "\<bar>y\<bar> \<le> \<bar>x\<bar> + \<bar>y - x\<bar>" by linarith
  also have "\<dots> \<le> 2 ^ 1000 + (2 ^ 1000 / 2 ^ 53 + 1 / 2 ^ 1075)"
  proof -
    have "\<bar>x\<bar> / 2 ^ 53 \<le> 2 ^ 1000 / 2 ^ 53" using assms by (intro divide_right_mono) simp_all
    then show ?thesis using yq qb assms by linarith
  qed
  also have "\<dots> < 2 ^ 1024" by simp
  finally have nov: "\<not> 2 ^ 1024 \<le> \<bar>y\<bar>" by simp
  have "round64 x = JNum y"
    using False nov unfolding round64_def Let_def e_def [symmetric] q_def [symmetric] y_def [symmetric]
    by simp
  then show ?thesis using yq qb by auto
qed

text \<open>
  The rounding of a given real: with \<open>k\<close> such that \<open>x * 2 ^ k\<close> lies between \<open>2 ^ 52\<close> and
  \<open>2 ^ 53\<close>, the double is \<open>n / 2 ^ k\<close> for the integer \<open>n\<close> nearest to \<open>x * 2 ^ k\<close>.
\<close>

lemma round64_by:
  assumes k: "k \<le> 1074"
    and lo: "2 ^ 52 \<le> \<bar>x\<bar> * 2 ^ k"
    and hi: "\<bar>x\<bar> * 2 ^ k < 2 ^ 53"
    and r: "roundHalfEven (x * 2 ^ k) = n"
    and c: "c = of_int n / 2 ^ k"
  shows "round64 x = JNum c"
proof -
  define e where "e = 52 - int k"
  have q: "(2::real) powi (e - 52) = 1 / 2 ^ k"
    by (simp add: e_def power_int_minus_divide)
  have pe: "(2::real) powi e = 2 ^ 52 / 2 ^ k"
    by (simp add: e_def power_int_diff)
  have pe1: "(2::real) powi (e + 1) = 2 ^ 53 / 2 ^ k"
  proof -
    have "e + 1 = 53 - int k" by (simp add: e_def)
    then show ?thesis by (simp add: power_int_diff)
  qed
  have "2 powi e \<le> \<bar>x\<bar>" unfolding pe using lo by (simp add: field_simps)
  moreover have "\<bar>x\<bar> < 2 powi (e + 1)" unfolding pe1 using hi by (simp add: field_simps)
  ultimately have il: "ilog2 \<bar>x\<bar> = e" by (rule ilog2_eqI)
  have emax: "max e (- 1022) = e" using k by (simp add: e_def)
  have x0: "x \<noteq> 0" using lo by auto
  have r': "roundHalfEven (x / (1 / 2 ^ k)) = n" using r by simp
  have "\<bar>of_int n - x * 2 ^ k\<bar> \<le> 1 / 2" unfolding r [symmetric] by (rule roundHalfEven_error)
  then have "\<bar>of_int n\<bar> \<le> \<bar>x * 2 ^ k\<bar> + 1 / 2" by linarith
  also have "\<dots> < 2 ^ 53 + 1 / 2" using hi by (simp add: abs_mult)
  finally have nb: "\<bar>real_of_int n\<bar> < 2 ^ 54" by simp
  have "\<bar>real_of_int n * (1 / 2 ^ k)\<bar> \<le> \<bar>real_of_int n\<bar>"
    by (simp add: abs_mult field_simps mult_le_cancel_left1)
  also have "\<dots> < 2 ^ 1024"
  proof -
    have "(2::real) ^ 54 < 2 ^ 1024" by (rule power_strict_increasing) simp_all
    then show ?thesis using nb by linarith
  qed
  finally have nov: "\<not> 2 ^ 1024 \<le> \<bar>real_of_int n * (1 / 2 ^ k)\<bar>" by simp
  show ?thesis
    unfolding round64_def Let_def il emax q r' using x0 nov by (simp add: c)
qed

lemma round64_nearI:
  assumes "k \<le> 1074" and "2 ^ 52 \<le> \<bar>x\<bar> * 2 ^ k" and "\<bar>x\<bar> * 2 ^ k < 2 ^ 53"
    and "\<bar>x * 2 ^ k - of_int n\<bar> < 1 / 2" and "c = of_int n / 2 ^ k"
  shows "round64 x = JNum c"
  using assms(1-3) roundHalfEven_near [OF assms(4)] assms(5) by (rule round64_by)

lemma round64_tieI:
  assumes "k \<le> 1074" and "2 ^ 52 \<le> \<bar>x\<bar> * 2 ^ k" and "\<bar>x\<bar> * 2 ^ k < 2 ^ 53"
    and "x * 2 ^ k = of_int n + 1 / 2" and "even n" and "c = of_int n / 2 ^ k"
  shows "round64 x = JNum c"
  using assms(1-3) roundHalfEven_tie [OF assms(4,5)] assms(6) by (rule round64_by)

lemma fl_JNum [simp]: "fl (JNum x) = round64 x"
  by (simp add: fl_def)

lemma add64_JNum: "add64 (JNum a) (JNum b) = round64 (a + b)"
  by (simp add: add64_def)

lemma sub64_JNum: "sub64 (JNum a) (JNum b) = round64 (a - b)"
  by (simp add: sub64_def minus_jsnum_def)

lemma mul64_JNum: "mul64 (JNum a) (JNum b) = round64 (a * b)"
  by (simp add: mul64_def)

lemma div64_JNum: "b \<noteq> 0 \<Longrightarrow> div64 (JNum a) (JNum b) = round64 (a / b)"
  by (simp add: div64_def)

text \<open>
  The error of one rounding in the units of a scale \<open>s\<close>, and for a result whose magnitude
  is at most \<open>k * M\<close>: the error is then at most \<open>(k + 1) * (M / 2 ^ 53)\<close>.
\<close>

lemma round64_scaled:
  assumes s: "1 / 2 ^ 100 \<le> s" "s \<le> 2 ^ 100" and t: "\<bar>x * s\<bar> \<le> 2 ^ 110"
  shows "\<exists>y. round64 x = JNum y \<and> \<bar>y * s - x * s\<bar> \<le> \<bar>x * s\<bar> / 2 ^ 53 + 1 / 2 ^ 975"
proof -
  have "(0::real) < 1 / 2 ^ 100" by simp
  then have s0: "0 < s" using s(1) by linarith
  have "\<bar>x\<bar> * (1 / 2 ^ 100) \<le> \<bar>x\<bar> * s" using s(1) by (intro mult_left_mono) simp_all
  also have "\<dots> = \<bar>x * s\<bar>" using s0 by (simp add: abs_mult)
  finally have "\<bar>x\<bar> \<le> 2 ^ 100 * 2 ^ 110" using t by simp
  also have "\<dots> \<le> (2::real) ^ 1000" by simp
  finally have "\<bar>x\<bar> \<le> 2 ^ 1000" .
  then obtain y where y: "round64 x = JNum y" and e: "\<bar>y - x\<bar> \<le> \<bar>x\<bar> / 2 ^ 53 + 1 / 2 ^ 1075"
    using round64_error by blast
  have "\<bar>y * s - x * s\<bar> = \<bar>(y - x) * s\<bar>" by (simp add: algebra_simps)
  also have "\<dots> = \<bar>y - x\<bar> * s" using s0 by (simp add: abs_mult)
  also have "\<dots> \<le> (\<bar>x\<bar> / 2 ^ 53 + 1 / 2 ^ 1075) * s" using e s0 by (intro mult_right_mono) simp_all
  also have "\<dots> = \<bar>x\<bar> * s / 2 ^ 53 + s / 2 ^ 1075" by (simp add: algebra_simps)
  also have "\<bar>x\<bar> * s = \<bar>x * s\<bar>" using s0 by (simp add: abs_mult)
  also have "\<bar>x * s\<bar> / 2 ^ 53 + s / 2 ^ 1075 \<le> \<bar>x * s\<bar> / 2 ^ 53 + 1 / 2 ^ 975" using s(2) by simp
  finally show ?thesis using y by blast
qed

lemma round64_scaled_bound:
  assumes M: "1 \<le> M" "M \<le> 2 ^ 100" and s: "1 / 2 ^ 100 \<le> s" "s \<le> 2 ^ 100"
    and k: "k \<le> 16" and t: "\<bar>x * s\<bar> \<le> k * M"
  shows "\<exists>y. round64 x = JNum y \<and> \<bar>y * s - x * s\<bar> \<le> (k + 1) * (M / 2 ^ 53)"
proof -
  have "k * M \<le> 16 * M" using k M(1) by (intro mult_right_mono) simp_all
  also have "\<dots> \<le> 2 ^ 110" using M(2) by simp
  finally have "\<bar>x * s\<bar> \<le> 2 ^ 110" using t by linarith
  from round64_scaled [OF s this]
  obtain y where y: "round64 x = JNum y"
    and e: "\<bar>y * s - x * s\<bar> \<le> \<bar>x * s\<bar> / 2 ^ 53 + 1 / 2 ^ 975" by blast
  have "\<bar>x * s\<bar> / 2 ^ 53 \<le> k * M / 2 ^ 53" using t by (intro divide_right_mono) simp_all
  moreover have "(1::real) / 2 ^ 975 \<le> M / 2 ^ 53" using M(1) by simp
  ultimately have "\<bar>y * s - x * s\<bar> \<le> k * M / 2 ^ 53 + M / 2 ^ 53" using e by linarith
  also have "\<dots> = (k + 1) * (M / 2 ^ 53)" by (simp add: algebra_simps)
  finally show ?thesis using y by blast
qed

lemma round64_pixels_bound:
  assumes "1 \<le> M" and "M \<le> 2 ^ 100" and "k \<le> 16" and "\<bar>t\<bar> \<le> k * M"
  shows "\<exists>y. round64 t = JNum y \<and> \<bar>y - t\<bar> \<le> (k + 1) * (M / 2 ^ 53)"
  using round64_scaled_bound [of M 1 k t] assms by simp

section \<open>The geometry of the sample rectangle\<close>

lemma js_less_irrefl: "\<not> (v::jsnum) < v"
  by (cases v) auto

text \<open>The roundings of the example: \<^verbatim>\<open>300 / 2.5\<close>, \<^verbatim>\<open>120 / 0.9\<close> and the product with \<^verbatim>\<open>0.9\<close>.\<close>

lemma round64_nine_tenths: "round64 (9 / 10) = JNum (8106479329266893 / 9007199254740992)"
  by (rule round64_nearI [where k = 53 and n = 8106479329266893]) simp_all

lemma round64_120: "round64 120 = JNum 120"
  by (rule round64_nearI [where k = 46 and n = 8444249301319680]) simp_all

lemma round64_sourceGraphWidth:
  "round64 (1080863910568919040 / 8106479329266893) = JNum (4691249611844267 / 35184372088832)"
  by (rule round64_nearI [where k = 45 and n = 4691249611844267]) simp_all

lemma round64_sourceWidth:
  "round64 (38029518006846885685310794952431 / 316912650057057350374175801344)
     = JNum (8444249301319681 / 70368744177664)"
  by (rule round64_nearI [where k = 46 and n = 8444249301319681]) simp_all

lemma scaledState_width:
  "sourceWidth (calculateSourceRegion64 zoomedConfig scaledState)
     = JNum (8444249301319681 / 70368744177664)"
  by (simp add: calculateSourceRegion64_def Let_def zoomedConfig_def scaledState_def
      defaultConfig_def cursorAt100_def freshState_def strict_eq_def div64_def mul64_def
      round64_120 round64_sourceGraphWidth round64_sourceWidth)

text \<open>
  Claim C1, as the specification states it: for every cursor position, manual offset, glass
  diameter, zoom factor and host transform with a scale above zero, the sample rectangle of
  \<^verbatim>\<open>calculateSourceRegion\<close> is centred on the cursor's world position plus the manual
  offset and is \<^verbatim>\<open>glassSize / zoomFactor\<close> wide and high. In double precision this fails
  at the zoom factor 2.5 on a canvas scaled by 0.9, with the glass of 300 pixels:
  \<^verbatim>\<open>300 / 2.5\<close> is 120, \<^verbatim>\<open>120 / 0.9\<close> rounds to \<^verbatim>\<open>133.33333333333334\<close>, and its
  product with \<^verbatim>\<open>0.9\<close> rounds to \<^verbatim>\<open>120.00000000000001\<close>, the double next above 120.
\<close>

theorem calculateSourceRegion64_not_centred:
  "canvasScale scaledState = round64 (9 / 10) \<and>
   glassSize zoomedConfig = JNum 300 \<and> zoomFactor zoomedConfig = JNum (5 / 2) \<and>
   div64 (glassSize zoomedConfig) (zoomFactor zoomedConfig) = JNum 120 \<and>
   sourceWidth (calculateSourceRegion64 zoomedConfig scaledState)
     = JNum (8444249301319681 / 70368744177664) \<and>
   \<not> centredOnCursor zoomedConfig scaledState (calculateSourceRegion64 zoomedConfig scaledState)"
proof -
  have "\<not> strict_eq (sourceWidth (calculateSourceRegion64 zoomedConfig scaledState))
           (glassSize zoomedConfig / zoomFactor zoomedConfig)"
    unfolding scaledState_width by (simp add: strict_eq_def zoomedConfig_def defaultConfig_def)
  then have "\<not> centredOnCursor zoomedConfig scaledState (calculateSourceRegion64 zoomedConfig scaledState)"
    unfolding centredOnCursor_def by blast
  moreover have "canvasScale scaledState = round64 (9 / 10)"
    by (simp add: scaledState_def round64_nine_tenths)
  moreover have "div64 (glassSize zoomedConfig) (zoomFactor zoomedConfig) = JNum 120"
    by (simp add: zoomedConfig_def defaultConfig_def div64_def round64_120)
  ultimately show ?thesis
    using scaledState_width by (simp add: zoomedConfig_def defaultConfig_def)
qed

text \<open>
  Each coordinate of the corner takes seven rounded operations. Their errors add up, in
  pixels, to at most 46 times \<open>M / 2 ^ 53\<close> when \<open>M\<close> bounds the inputs; the extent takes
  three and is within 8 times \<open>M / 2 ^ 53\<close> of \<^verbatim>\<open>glassSize / zoomFactor\<close>.
\<close>

lemma axis_error:
  fixes c o' m w s M :: real
  assumes M: "1 \<le> M" "M \<le> 2 ^ 100" and s: "1 / 2 ^ 100 \<le> s" "s \<le> 2 ^ 100"
    and c: "\<bar>c\<bar> \<le> M" and o: "\<bar>o'\<bar> \<le> M" and m: "\<bar>m * s\<bar> \<le> M" and w: "\<bar>w * s\<bar> \<le> 2 * M"
  shows "\<exists>x. add64 (mul64 (sub64 (add64 (div64 (sub64 (JNum c) (JNum o')) (JNum s)) (JNum m))
                                     (div64 (JNum w) (JNum 2))) (JNum s)) (JNum o') = JNum x \<and>
             \<bar>x - (c + m * s - w * s / 2)\<bar> \<le> 46 * (M / 2 ^ 53)"
proof -
  define E where "E = M / 2 ^ 53"
  have "(0::real) < 1 / 2 ^ 100" by simp
  then have s0: "0 < s" using s(1) by linarith
  have E: "0 \<le> E" "16 * E \<le> M" using M(1) by (simp_all add: E_def)
  note px = round64_pixels_bound [OF M, folded E_def]
  note sc = round64_scaled_bound [OF M s, folded E_def]
  have "\<bar>c - o'\<bar> \<le> 2 * M" using c o by linarith
  from px [OF _ this]
  obtain d where d: "sub64 (JNum c) (JNum o') = JNum d" and d1: "\<bar>d - (c - o')\<bar> \<le> 3 * E"
    unfolding sub64_JNum by auto
  have d2: "\<bar>d\<bar> \<le> 3 * M" using d1 c o E by linarith
  have ds: "d / s * s = d" using s0 by simp
  have "\<bar>d / s * s\<bar> \<le> 3 * M" unfolding ds by (rule d2)
  from sc [OF _ this]
  obtain cg where cg: "div64 (JNum d) (JNum s) = JNum cg" and cg1: "\<bar>cg * s - d\<bar> \<le> 4 * E"
    unfolding ds using s0 by (auto simp: div64_JNum)
  have cg2: "\<bar>cg * s\<bar> \<le> 4 * M" using cg1 d2 E by linarith
  have ts: "(cg + m) * s = cg * s + m * s" by (simp add: algebra_simps)
  have "\<bar>(cg + m) * s\<bar> \<le> 5 * M" unfolding ts using cg2 m by linarith
  from sc [OF _ this]
  obtain tc where tc: "add64 (JNum cg) (JNum m) = JNum tc"
    and tc1: "\<bar>tc * s - (cg * s + m * s)\<bar> \<le> 6 * E"
    unfolding ts add64_JNum by auto
  have tc2: "\<bar>tc * s\<bar> \<le> 6 * M" using tc1 cg2 m E by linarith
  have hs: "w / 2 * s = w * s / 2" by simp
  have "\<bar>w / 2 * s\<bar> \<le> 1 * M" unfolding hs using w by linarith
  from sc [OF _ this]
  obtain hw where hw: "div64 (JNum w) (JNum 2) = JNum hw"
    and hw1: "\<bar>hw * s - w * s / 2\<bar> \<le> 2 * E"
    unfolding hs by (auto simp: div64_JNum)
  have hw2: "\<bar>hw * s\<bar> \<le> 2 * M" using hw1 w E by linarith
  have gs: "(tc - hw) * s = tc * s - hw * s" by (simp add: algebra_simps)
  have "\<bar>(tc - hw) * s\<bar> \<le> 8 * M" unfolding gs using tc2 hw2 by linarith
  from sc [OF _ this]
  obtain sg where sg: "sub64 (JNum tc) (JNum hw) = JNum sg"
    and sg1: "\<bar>sg * s - (tc * s - hw * s)\<bar> \<le> 9 * E"
    unfolding gs sub64_JNum by auto
  have sg2: "\<bar>sg * s\<bar> \<le> 9 * M" using sg1 tc2 hw2 E by linarith
  from px [OF _ sg2]
  obtain p where p: "mul64 (JNum sg) (JNum s) = JNum p" and p1: "\<bar>p - sg * s\<bar> \<le> 10 * E"
    unfolding mul64_JNum by auto
  have p2: "\<bar>p\<bar> \<le> 10 * M" using p1 sg2 E by linarith
  have "\<bar>p + o'\<bar> \<le> 11 * M" using p2 o by linarith
  from px [OF _ this]
  obtain x where x: "add64 (JNum p) (JNum o') = JNum x" and x1: "\<bar>x - (p + o')\<bar> \<le> 12 * E"
    unfolding add64_JNum by auto
  have "\<bar>x - (c + m * s - w * s / 2)\<bar> \<le> 46 * E"
    using d1 cg1 tc1 hw1 sg1 p1 x1 by linarith
  then show ?thesis
    unfolding d cg tc hw sg p x E_def by blast
qed

lemma size_error:
  fixes g z s M :: real
  assumes M: "1 \<le> M" "M \<le> 2 ^ 100" and s: "1 / 2 ^ 100 \<le> s" "s \<le> 2 ^ 100"
    and z: "z \<noteq> 0" and gz: "\<bar>g / z\<bar> \<le> M"
  shows "\<exists>w e. div64 (div64 (JNum g) (JNum z)) (JNum s) = JNum w \<and>
               mul64 (JNum w) (JNum s) = JNum e \<and> \<bar>w * s\<bar> \<le> 2 * M \<and>
               \<bar>e - w * s\<bar> \<le> 3 * (M / 2 ^ 53) \<and> \<bar>e - g / z\<bar> \<le> 8 * (M / 2 ^ 53)"
proof -
  define E where "E = M / 2 ^ 53"
  define r where "r = g / z"
  have "(0::real) < 1 / 2 ^ 100" by simp
  then have s0: "0 < s" using s(1) by linarith
  have E: "0 \<le> E" "16 * E \<le> M" using M(1) by (simp_all add: E_def)
  note px = round64_pixels_bound [OF M, folded E_def]
  note sc = round64_scaled_bound [OF M s, folded E_def]
  have "\<bar>r\<bar> \<le> 1 * M" using gz by (simp add: r_def)
  from px [OF _ this]
  obtain q where q: "div64 (JNum g) (JNum z) = JNum q" and q1: "\<bar>q - r\<bar> \<le> 2 * E"
    using z by (auto simp: div64_JNum r_def)
  have q2: "\<bar>q\<bar> \<le> 2 * M" using q1 gz E unfolding r_def [symmetric] by linarith
  have qs: "q / s * s = q" using s0 by simp
  have "\<bar>q / s * s\<bar> \<le> 2 * M" unfolding qs by (rule q2)
  from sc [OF _ this]
  obtain w where w: "div64 (JNum q) (JNum s) = JNum w" and w1: "\<bar>w * s - q\<bar> \<le> 3 * E"
    unfolding qs using s0 by (auto simp: div64_JNum)
  have w2: "\<bar>w * s\<bar> \<le> 2 * M" using w1 q1 gz E unfolding r_def [symmetric] by linarith
  from px [OF _ w2]
  obtain e where e: "mul64 (JNum w) (JNum s) = JNum e" and e1: "\<bar>e - w * s\<bar> \<le> 3 * E"
    unfolding mul64_JNum by auto
  have "\<bar>e - r\<bar> \<le> 8 * E" using q1 w1 e1 by linarith
  then show ?thesis using w2 e1 e unfolding q w r_def E_def by blast
qed

text \<open>
  Claim C1, amended: the sample rectangle of \<^verbatim>\<open>calculateSourceRegion\<close> is centred on
  the cursor up to rounding. For every finite cursor position, manual offset, glass diameter
  and host offset, every zoom factor other than zero and every host scale between
  \<open>1 / 2 ^ 100\<close> and \<open>2 ^ 100\<close>, when \<open>M\<close>, between 1 and \<open>2 ^ 100\<close>, bounds the cursor
  coordinates, the host offsets, \<^verbatim>\<open>glassSize / zoomFactor\<close> and the manual offsets taken
  to pixels: the four numbers of the rectangle are finite; on each axis its centre, taken
  back through the host transform, is within \<open>M / (2 ^ 47 * scale)\<close> of the cursor's world
  position plus the manual offset; and its width and height are within \<open>M / 2 ^ 50\<close> of
  \<^verbatim>\<open>glassSize / zoomFactor\<close>.
\<close>

theorem calculateSourceRegion64_centred_within_rounding:
  assumes "cursorX st = JNum cx" and "cursorY st = JNum cy"
    and "canvasScale st = JNum s"
    and "canvasOffsetX st = JNum ox" and "canvasOffsetY st = JNum oy"
    and "offsetX cfg = JNum mx" and "offsetY cfg = JNum my"
    and "glassSize cfg = JNum g" and "zoomFactor cfg = JNum z" and "z \<noteq> 0"
    and M: "1 \<le> M" "M \<le> 2 ^ 100" and s: "1 / 2 ^ 100 \<le> s" "s \<le> 2 ^ 100"
    and "\<bar>cx\<bar> \<le> M" and "\<bar>cy\<bar> \<le> M" and "\<bar>ox\<bar> \<le> M" and "\<bar>oy\<bar> \<le> M"
    and "\<bar>mx * s\<bar> \<le> M" and "\<bar>my * s\<bar> \<le> M" and "\<bar>g / z\<bar> \<le> M"
  shows "centredWithin (M / (2 ^ 47 * s)) (M / 2 ^ 50) cfg st (calculateSourceRegion64 cfg st)"
proof -
  define E where "E = M / 2 ^ 53"
  have "(0::real) < 1 / 2 ^ 100" by simp
  then have s0: "0 < s" using s(1) by linarith
  have E0: "0 \<le> E" using M(1) by (simp add: E_def)
  obtain w e where w: "div64 (div64 (JNum g) (JNum z)) (JNum s) = JNum w"
    and e: "mul64 (JNum w) (JNum s) = JNum e" and w2: "\<bar>w * s\<bar> \<le> 2 * M"
    and e1: "\<bar>e - w * s\<bar> \<le> 3 * E" and e2: "\<bar>e - g / z\<bar> \<le> 8 * E"
    using size_error [OF M s assms(10) assms(21)] unfolding E_def by blast
  obtain x where x: "add64 (mul64 (sub64 (add64 (div64 (sub64 (JNum cx) (JNum ox)) (JNum s)) (JNum mx))
        (div64 (JNum w) (JNum 2))) (JNum s)) (JNum ox) = JNum x"
    and x1: "\<bar>x - (cx + mx * s - w * s / 2)\<bar> \<le> 46 * E"
    using axis_error [OF M s assms(15) assms(17) assms(19) w2] unfolding E_def by blast
  obtain y where y: "add64 (mul64 (sub64 (add64 (div64 (sub64 (JNum cy) (JNum oy)) (JNum s)) (JNum my))
        (div64 (JNum w) (JNum 2))) (JNum s)) (JNum oy) = JNum y"
    and y1: "\<bar>y - (cy + my * s - w * s / 2)\<bar> \<le> 46 * E"
    using axis_error [OF M s assms(16) assms(18) assms(20) w2] unfolding E_def by blast
  have st': "sourceX (calculateSourceRegion64 cfg st) = JNum x"
    "sourceY (calculateSourceRegion64 cfg st) = JNum y"
    "sourceWidth (calculateSourceRegion64 cfg st) = JNum e"
    "sourceHeight (calculateSourceRegion64 cfg st) = JNum e"
    using s0 by (simp_all add: calculateSourceRegion64_def Let_def strict_eq_def assms(1-9) w e x y)
  have tol: "64 * E / s = M / (2 ^ 47 * s)" "8 * E = M / 2 ^ 50"
    by (simp_all add: E_def)
  have centre: "\<bar>((p + e / 2) - o') / s - ((c - o') / s + m)\<bar> \<le> M / (2 ^ 47 * s)"
    if "\<bar>p - (c + m * s - w * s / 2)\<bar> \<le> 46 * E" for p c o' m
  proof -
    have "((p + e / 2) - o') / s - ((c - o') / s + m) = (p + e / 2 - (c + m * s)) / s"
      using s0 by (simp add: field_simps)
    moreover have "\<bar>p + e / 2 - (c + m * s)\<bar> \<le> 64 * E" using that e1 E0 by linarith
    then have "\<bar>(p + e / 2 - (c + m * s)) / s\<bar> \<le> 64 * E / s"
      using s0 by (simp add: divide_right_mono)
    ultimately show ?thesis unfolding tol by simp
  qed
  show ?thesis
    unfolding centredWithin_def axisCentredWithin_def sizeWithin_def finiteValue_def st' assms(1-9)
    using centre [OF x1] centre [OF y1] e2 unfolding tol by simp
qed

theorem calculateSourceRegion64_centred_within_rounding_witness:
  "cursorX pannedState = JNum 100 \<and> cursorY pannedState = JNum 60 \<and>
   canvasScale pannedState = JNum 2 \<and>
   canvasOffsetX pannedState = JNum 10 \<and> canvasOffsetY pannedState = JNum (- 20) \<and>
   offsetX nudgedConfig = JNum 7 \<and> offsetY nudgedConfig = JNum (- 3) \<and>
   glassSize nudgedConfig = JNum 300 \<and> zoomFactor nudgedConfig = JNum 3 \<and>
   centredWithin (1024 / (2 ^ 47 * 2)) (1024 / 2 ^ 50) nudgedConfig pannedState
     (calculateSourceRegion64 nudgedConfig pannedState)"
  using calculateSourceRegion64_centred_within_rounding
    [of pannedState 100 60 2 10 "- 20" nudgedConfig 7 "- 3" 300 3 1024]
  by (simp add: nudgedConfig_def defaultConfig_def pannedState_def freshState_def)

text \<open>
  Claim C2: with scale 1, host offset \<open>(0, 0)\<close>, the cursor at \<open>(100, 100)\<close>, no manual
  offset and a glass of 300 pixels, the sample rectangle is
  \<^verbatim>\<open>{x: 50, y: 50, width: 100, height: 100}\<close> at zoom 3 and is 300 wide and high at zoom 1.
  Nothing else of the state changes.
\<close>

theorem calculateSourceRegion_scenarios:
  "calculateSourceRegion
     (cfg\<lparr>zoomFactor := JNum 3, glassSize := JNum 300, offsetX := JNum 0, offsetY := JNum 0\<rparr>)
     (st\<lparr>cursorX := JNum 100, cursorY := JNum 100, canvasScale := JNum 1,
         canvasOffsetX := JNum 0, canvasOffsetY := JNum 0\<rparr>)
   = st\<lparr>cursorX := JNum 100, cursorY := JNum 100, canvasScale := JNum 1,
         canvasOffsetX := JNum 0, canvasOffsetY := JNum 0,
         sourceX := JNum 50, sourceY := JNum 50, sourceWidth := JNum 100, sourceHeight := JNum 100\<rparr>
   \<and> sourceWidth (calculateSourceRegion
        (cfg\<lparr>zoomFactor := JNum 1, glassSize := JNum 300, offsetX := JNum 0, offsetY := JNum 0\<rparr>)
        (st\<lparr>cursorX := JNum 100, cursorY := JNum 100, canvasScale := JNum 1,
            canvasOffsetX := JNum 0, canvasOffsetY := JNum 0\<rparr>)) = JNum 300
   \<and> sourceHeight (calculateSourceRegion
        (cfg\<lparr>zoomFactor := JNum 1, glassSize := JNum 300, offsetX := JNum 0, offsetY := JNum 0\<rparr>)
        (st\<lparr>cursorX := JNum 100, cursorY := JNum 100, canvasScale := JNum 1,
            canvasOffsetX := JNum 0, canvasOffsetY := JNum 0\<rparr>)) = JNum 300"
  by (simp add: calculateSourceRegion_def strict_eq_def minus_jsnum_def Let_def)

text \<open>
  The same two scenarios with the arithmetic of the program: every intermediate value is an
  integer of at most three digits, and no rounding changes it.
\<close>

lemma round64_50: "round64 50 = JNum 50"
  by (rule round64_nearI [where k = 47 and n = 7036874417766400]) simp_all

lemma round64_100: "round64 100 = JNum 100"
  by (rule round64_nearI [where k = 46 and n = 7036874417766400]) simp_all

lemma round64_300: "round64 300 = JNum 300"
  by (rule round64_nearI [where k = 44 and n = 5277655813324800]) simp_all

lemma calculateSourceRegion64_scenarios:
  "calculateSourceRegion64
     (cfg\<lparr>zoomFactor := JNum 3, glassSize := JNum 300, offsetX := JNum 0, offsetY := JNum 0\<rparr>)
     (st\<lparr>cursorX := JNum 100, cursorY := JNum 100, canvasScale := JNum 1,
         canvasOffsetX := JNum 0, canvasOffsetY := JNum 0\<rparr>)
   = st\<lparr>cursorX := JNum 100, cursorY := JNum 100, canvasScale := JNum 1,
         canvasOffsetX := JNum 0, canvasOffsetY := JNum 0,
         sourceX := JNum 50, sourceY := JNum 50, sourceWidth := JNum 100, sourceHeight := JNum 100\<rparr>
   \<and> sourceWidth (calculateSourceRegion64
        (cfg\<lparr>zoomFactor := JNum 1, glassSize := JNum 300, offsetX := JNum 0, offsetY := JNum 0\<rparr>)
        (st\<lparr>cursorX := JNum 100, cursorY := JNum 100, canvasScale := JNum 1,
            canvasOffsetX := JNum 0, canvasOffsetY := JNum 0\<rparr>)) = JNum 300
   \<and> sourceHeight (calculateSourceRegion64
        (cfg\<lparr>zoomFactor := JNum 1, glassSize := JNum 300, offsetX := JNum 0, offsetY := JNum 0\<rparr>)
        (st\<lparr>cursorX := JNum 100, cursorY := JNum 100, canvasScale := JNum 1,
            canvasOffsetX := JNum 0, canvasOffsetY := JNum 0\<rparr>)) = JNum 300"
  by (simp add: calculateSourceRegion64_def strict_eq_def Let_def add64_JNum sub64_JNum
      mul64_JNum div64_JNum round64_50 round64_100 round64_300)

text \<open>
  Claim C3: from every state, \<open>calculateSourceRegion\<close> with a host scale of zero returns
  at its guard, before any division, and leaves the state as it was, the sample rectangle
  included. (The function has no error result: there is nothing in it that throws.)
\<close>

theorem calculateSourceRegion_zero_scale_unchanged:
  "canvasScale st = JNum 0 \<Longrightarrow> calculateSourceRegion cfg st = st"
  by (simp add: calculateSourceRegion_def strict_eq_def Let_def)

theorem calculateSourceRegion_zero_scale_witness:
  "canvasScale (cursorAt100\<lparr>canvasScale := JNum 0\<rparr>) = JNum 0 \<and>
   calculateSourceRegion defaultConfig (cursorAt100\<lparr>canvasScale := JNum 0\<rparr>)
     = cursorAt100\<lparr>canvasScale := JNum 0\<rparr>"
  using calculateSourceRegion_zero_scale_unchanged [of "cursorAt100\<lparr>canvasScale := JNum 0\<rparr>" defaultConfig]
  by simp

text \<open>
  Claim C4: \<open>rectsOverlap\<close> is symmetric, and two rectangles that touch along an edge
  do not overlap: when the right edge of one is the left edge of the other, or its left
  edge the other's right edge, or likewise for top and bottom, the test is false.
\<close>

theorem rectsOverlap_symmetric_strict:
  "rectsOverlap a b = rectsOverlap b a \<and>
   (strict_eq (rect_x a + rect_width a) (rect_x b) \<longrightarrow> \<not> rectsOverlap a b) \<and>
   (strict_eq (rect_x a) (rect_x b + rect_width b) \<longrightarrow> \<not> rectsOverlap a b) \<and>
   (strict_eq (rect_y a + rect_height a) (rect_y b) \<longrightarrow> \<not> rectsOverlap a b) \<and>
   (strict_eq (rect_y a) (rect_y b + rect_height b) \<longrightarrow> \<not> rectsOverlap a b)"
  by (auto simp: rectsOverlap_def strict_eq_def js_less_irrefl)

theorem rectsOverlap_touching_witness:
  "strict_eq (rect_x square10 + rect_width square10) (rect_x neighbour) \<and>
   \<not> rectsOverlap square10 neighbour \<and> \<not> rectsOverlap neighbour square10"
  using rectsOverlap_symmetric_strict [of square10 neighbour]
  by (auto simp: square10_def neighbour_def strict_eq_def)

section \<open>Loading the persisted offsets\<close>

lemma parseInt10_letters: "parseInt10 ''abc'' = JNaN"
  by code_simp

lemma parseInt10_prefix: "parseInt10 ''12abc'' = JNum 12"
  by code_simp

lemma parseInt10_signed: "parseInt10 ''-42'' = JNum (- 42)"
  by code_simp

lemma loadSavedOffsets_other_fields [simp]:
  "activationKey (loadSavedOffsets sto cfg) = activationKey cfg"
  "altRequired (loadSavedOffsets sto cfg) = altRequired cfg"
  "debugMode (loadSavedOffsets sto cfg) = debugMode cfg"
  "offsetStep (loadSavedOffsets sto cfg) = offsetStep cfg"
  by (simp_all add: loadSavedOffsets_def split: sum.splits)

text \<open>What holds of the loader: a missing key and a read that throws give the offset 0.\<close>

lemma loadSavedOffsets_missing:
  "readable sto \<Longrightarrow> items sto offsetXKey = None \<Longrightarrow> offsetX (loadSavedOffsets sto cfg) = JNum 0"
  "readable sto \<Longrightarrow> items sto offsetYKey = None \<Longrightarrow> offsetY (loadSavedOffsets sto cfg) = JNum 0"
  by (simp_all add: loadSavedOffsets_def getItem_def)

lemma loadSavedOffsets_read_throws:
  "\<not> readable sto \<Longrightarrow>
     offsetX (loadSavedOffsets sto cfg) = JNum 0 \<and> offsetY (loadSavedOffsets sto cfg) = JNum 0"
  by (simp add: loadSavedOffsets_def getItem_def)

lemma loadSavedOffsets_stored:
  "readable sto \<Longrightarrow> items sto offsetXKey = Some v \<Longrightarrow>
     offsetX (loadSavedOffsets sto cfg) = parseInt10 v"
  by (simp add: loadSavedOffsets_def getItem_def)

text \<open>
  A \<^verbatim>\<open>NaN\<close> offset stays: the arrow keys add to it, it is stored as \<^verbatim>\<open>"NaN"\<close>, and
  the sample rectangle computed from it has no position.
\<close>

lemma js_plus_NaN [simp]: "(a::jsnum) + JNaN = JNaN"
  by (cases a) simp_all

lemma js_NaN_minus [simp]: "JNaN - (a::jsnum) = JNaN"
  by (simp add: minus_jsnum_def)

lemma numberToString_NaN: "numberToString fmt JNaN = ''NaN''"
  by (simp add: numberToString_def)

lemma calculateSourceRegion_NaN_offset:
  "offsetX cfg = JNaN \<Longrightarrow> \<not> strict_eq (canvasScale st) (JNum 0) \<Longrightarrow>
     sourceX (calculateSourceRegion cfg st) = JNaN"
  by (simp add: calculateSourceRegion_def Let_def)

text \<open>
  Claim C5 says that a stored value that is not a well-formed integer loads as the offset 0.
  The code assigns the result of \<^verbatim>\<open>parseInt\<close> unchecked: with \<^verbatim>\<open>"abc"\<close> stored under the
  first key, the loaded offset is \<^verbatim>\<open>NaN\<close>.
\<close>

theorem loadSavedOffsets_malformed_is_NaN:
  "offsetX (loadSavedOffsets malformedStorage cfg) = JNaN"
  by (simp add: loadSavedOffsets_def getItem_def malformedStorage_def parseInt10_letters
      offsetXKey_def offsetYKey_def)

section \<open>What the handlers leave alone\<close>

lemma calculateSourceRegion_flags [simp]:
  "active (calculateSourceRegion cfg st) = active st"
  "isRenderScheduled (calculateSourceRegion cfg st) = isRenderScheduled st"
  by (simp_all add: calculateSourceRegion_def Let_def)

lemma updateCanvasTransformation_flags [simp]:
  "active (updateCanvasTransformation h st) = active st"
  "isRenderScheduled (updateCanvasTransformation h st) = isRenderScheduled st"
  by (simp_all add: updateCanvasTransformation_def Let_def split: option.splits prod.splits)

lemma updateMagnifiedView_frame [simp]:
  "ui (updateMagnifiedView h w) = ui w"
  "config (updateMagnifiedView h w) = config w"
  "localStorage (updateMagnifiedView h w) = localStorage w"
  "active (state (updateMagnifiedView h w)) = active (state w)"
  "renderCalls (updateMagnifiedView h w) = renderCalls w"
  by (simp_all add: updateMagnifiedView_def Let_def)

lemma updateMagnifiedView_flagMatchesQueue:
  "flagMatchesQueue w \<Longrightarrow> flagMatchesQueue (updateMagnifiedView h w)"
  by (simp add: updateMagnifiedView_def Let_def flagMatchesQueue_def)

lemma updateMagnifiedView_coalesced:
  "isRenderScheduled (state w) \<Longrightarrow>
     pendingFrames (updateMagnifiedView h w) = pendingFrames w \<and>
     isRenderScheduled (state (updateMagnifiedView h w))"
  by (simp add: updateMagnifiedView_def Let_def)

lemma adjustForBoundaries_frame [simp]:
  "glassDisplay (adjustForBoundaries h a b u) = glassDisplay u"
  "htmlOverlay (adjustForBoundaries h a b u) = htmlOverlay u"
  by (simp_all add: adjustForBoundaries_def Let_def)

lemma positionGlass_frame [simp]:
  "glassDisplay (positionGlass cfg h a b u) = glassDisplay u"
  "htmlOverlay (positionGlass cfg h a b u) = htmlOverlay u"
  by (simp_all add: positionGlass_def Let_def)

lemma updateInitialPosition_frame [simp]:
  "config (updateInitialPosition h w) = config w"
  "localStorage (updateInitialPosition h w) = localStorage w"
  "active (state (updateInitialPosition h w)) = active (state w)"
  "renderCalls (updateInitialPosition h w) = renderCalls w"
  "glassDisplay (ui (updateInitialPosition h w)) = glassDisplay (ui w)"
  "htmlOverlay (ui (updateInitialPosition h w)) = htmlOverlay (ui w)"
  by (simp_all add: updateInitialPosition_def Let_def)

lemma activation_frame [simp]:
  "config (activation h e w) = config w"
  "localStorage (activation h e w) = localStorage w"
  "renderCalls (activation h e w) = renderCalls w"
  "active (state (activation h e w)) = (active (state w) \<or> activates (config w) e)"
  by (auto simp: activation_def)

lemma activation_when_active: "active (state w) \<Longrightarrow> activation h e w = w"
  by (simp add: activation_def)


lemma offsetKeys_frame [simp]:
  "renderCalls (offsetKeys h e w) = renderCalls w"
  "active (state (offsetKeys h e w)) = active (state w)"
  by (simp_all add: offsetKeys_def Let_def split: option.splits)


lemma handleKeyDown_renderCalls [simp]: "renderCalls (handleKeyDown h e w) = renderCalls w"
  by (simp add: handleKeyDown_def)

lemma handleKeyUp_renderCalls [simp]: "renderCalls (handleKeyUp h e w) = renderCalls w"
  by (simp add: handleKeyUp_def Let_def)

lemma handleMouseMove_renderCalls [simp]: "renderCalls (handleMouseMove h e w) = renderCalls w"
  by (simp add: handleMouseMove_def Let_def)

section \<open>Single-flight rendering\<close>

lemma updateInitialPosition_flagMatchesQueue:
  assumes "flagMatchesQueue w"
  shows "flagMatchesQueue (updateInitialPosition h w)"
proof -
  have "flagMatchesQueue (w\<lparr>state := (state w)\<lparr>cursorX := a, cursorY := b\<rparr>, ui := u\<rparr>)" for a b u
    using assms by (simp add: flagMatchesQueue_def)
  then show ?thesis
    using assms by (simp add: updateInitialPosition_def Let_def updateMagnifiedView_flagMatchesQueue)
qed

lemma activation_flagMatchesQueue:
  assumes "flagMatchesQueue w"
  shows "flagMatchesQueue (activation h e w)"
proof -
  have "flagMatchesQueue (w\<lparr>state := (state w)\<lparr>active := True\<rparr>, ui := u\<rparr>)" for u
    using assms by (simp add: flagMatchesQueue_def)
  then show ?thesis
    using assms by (simp add: activation_def updateInitialPosition_flagMatchesQueue)
qed

lemma offsetKeys_flagMatchesQueue:
  assumes "flagMatchesQueue w"
  shows "flagMatchesQueue (offsetKeys h e w)"
proof -
  have "flagMatchesQueue (w\<lparr>config := c, localStorage := s\<rparr>)" for c s
    using assms by (simp add: flagMatchesQueue_def)
  then show ?thesis
    using assms
    by (simp add: offsetKeys_def Let_def updateMagnifiedView_flagMatchesQueue split: option.splits)
qed

lemma handleKeyDown_flagMatchesQueue:
  "flagMatchesQueue w \<Longrightarrow> flagMatchesQueue (handleKeyDown h e w)"
  by (simp add: handleKeyDown_def offsetKeys_flagMatchesQueue activation_flagMatchesQueue)

lemma handleKeyUp_flagMatchesQueue:
  "flagMatchesQueue w \<Longrightarrow> flagMatchesQueue (handleKeyUp h e w)"
  by (simp add: handleKeyUp_def Let_def flagMatchesQueue_def)

lemma handleMouseMove_flagMatchesQueue:
  assumes "flagMatchesQueue w"
  shows "flagMatchesQueue (handleMouseMove h e w)"
proof -
  have moved: "flagMatchesQueue (w\<lparr>lastKnownMousePosition := p\<rparr>)" for p
    using assms by (simp add: flagMatchesQueue_def)
  have "flagMatchesQueue (w\<lparr>lastKnownMousePosition := p,
      state := (state w)\<lparr>cursorX := a, cursorY := b\<rparr>, ui := u\<rparr>)" for p a b u
    using assms by (simp add: flagMatchesQueue_def)
  then show ?thesis
    using moved by (simp add: handleMouseMove_def Let_def updateMagnifiedView_flagMatchesQueue)
qed

lemma frameCallback_effect [simp]:
  "pendingFrames (frameCallback h w) = pendingFrames w"
  "\<not> isRenderScheduled (state (frameCallback h w))"
  by (simp_all add: frameCallback_def Let_def renderHtmlOverlays_def render_def split: option.splits)

lemma frameCallback_renderCalls: "renderCalls (frameCallback h w) \<le> Suc (renderCalls w)"
  by (simp add: frameCallback_def Let_def renderHtmlOverlays_def render_def split: option.splits)

lemma frameCallbacks_pendingFrames [simp]:
  "pendingFrames ((frameCallback h ^^ n) w) = pendingFrames w"
  by (induction n) simp_all

lemma frameCallbacks_renderCalls: "renderCalls ((frameCallback h ^^ n) w) \<le> renderCalls w + n"
proof (induction n)
  case 0
  show ?case by simp
next
  case (Suc n)
  have "renderCalls ((frameCallback h ^^ Suc n) w) \<le> Suc (renderCalls ((frameCallback h ^^ n) w))"
    by (simp add: frameCallback_renderCalls)
  with Suc show ?case by simp
qed

lemma animationFrame_pendingFrames [simp]: "pendingFrames (animationFrame h w) = 0"
  by (simp add: animationFrame_def)

lemma animationFrame_clears_flag:
  "flagMatchesQueue w \<Longrightarrow> \<not> isRenderScheduled (state (animationFrame h w))"
  by (cases "isRenderScheduled (state w)") (simp_all add: animationFrame_def flagMatchesQueue_def)

lemma animationFrame_flagMatchesQueue:
  "flagMatchesQueue w \<Longrightarrow> flagMatchesQueue (animationFrame h w)"
  using animationFrame_clears_flag [where w = w and h = h] by (simp add: flagMatchesQueue_def)

lemma animationFrame_renderCalls:
  "flagMatchesQueue w \<Longrightarrow> renderCalls (animationFrame h w) \<le> renderCalls w + 1"
  using frameCallbacks_renderCalls
    [where h = h and n = "pendingFrames w" and w = "w\<lparr>pendingFrames := 0\<rparr>"]
  by (simp add: animationFrame_def flagMatchesQueue_def split: if_splits)

lemma step_flagMatchesQueue: "flagMatchesQueue w \<Longrightarrow> flagMatchesQueue (step h ev w)"
  by (cases ev)
    (simp_all add: step_def handleKeyDown_flagMatchesQueue handleKeyUp_flagMatchesQueue
      handleMouseMove_flagMatchesQueue animationFrame_flagMatchesQueue)

lemma initial_flagMatchesQueue: "flagMatchesQueue (initial cfg sto)"
  by (simp add: initial_def flagMatchesQueue_def freshState_def)

lemma reachable_flagMatchesQueue: "reachable w \<Longrightarrow> flagMatchesQueue w"
  by (induction rule: reachable.induct)
    (simp_all add: initial_flagMatchesQueue step_flagMatchesQueue)

lemma run_flagMatchesQueue: "flagMatchesQueue w \<Longrightarrow> flagMatchesQueue (run evs w)"
  by (induction evs arbitrary: w) (auto simp: step_flagMatchesQueue)

lemma step_renderCalls: "ev \<noteq> AnimationFrame \<Longrightarrow> renderCalls (step h ev w) = renderCalls w"
  by (cases ev) (simp_all add: step_def)

lemma run_renderCalls: "noFrame evs \<Longrightarrow> renderCalls (run evs w) = renderCalls w"
  by (induction evs arbitrary: w) (auto simp: noFrame_def step_renderCalls)

text \<open>Two pointer moves before a frame tick, on the example page: one call of \<^verbatim>\<open>render\<close>.\<close>

lemma two_moves_render_once:
  "renderCalls (step exampleHost AnimationFrame (run twoMoves startWorld)) = 1"
  by code_simp

text \<open>
  Claim C6: rendering is single-flight. In every reachable state the pending flag says what
  the queue holds, and from every state where it does: however many requests arrive before
  the next frame tick (any events but a tick), the tick calls \<^verbatim>\<open>render\<close> at most once,
  and after it the flag is clear and the queue empty. A request that finds the flag set
  queues nothing, leaves the flag set and renders nothing (it still recomputes the sample
  rectangle, which the one pending draw will read).
\<close>

theorem render_single_flight:
  "(reachable w \<longrightarrow> flagMatchesQueue w) \<and>
   (flagMatchesQueue w \<and> noFrame evs \<longrightarrow>
      renderCalls (step hf AnimationFrame (run evs w)) \<le> renderCalls w + 1 \<and>
      \<not> isRenderScheduled (state (step hf AnimationFrame (run evs w))) \<and>
      pendingFrames (step hf AnimationFrame (run evs w)) = 0) \<and>
   (isRenderScheduled (state w) \<longrightarrow>
      pendingFrames (updateMagnifiedView h w) = pendingFrames w \<and>
      isRenderScheduled (state (updateMagnifiedView h w)) \<and>
      renderCalls (updateMagnifiedView h w) = renderCalls w)"
proof -
  have "renderCalls (step hf AnimationFrame (run evs w)) \<le> renderCalls w + 1"
    if "flagMatchesQueue w" and "noFrame evs"
    using animationFrame_renderCalls [OF run_flagMatchesQueue [OF that(1)], of hf evs]
      run_renderCalls [OF that(2), of w]
    by (simp add: step_def)
  moreover have "\<not> isRenderScheduled (state (step hf AnimationFrame (run evs w)))"
    if "flagMatchesQueue w"
    using animationFrame_clears_flag [OF run_flagMatchesQueue [OF that]] by (simp add: step_def)
  ultimately show ?thesis
    by (simp add: reachable_flagMatchesQueue updateMagnifiedView_coalesced step_def)
qed

theorem render_single_flight_witness:
  "flagMatchesQueue startWorld \<and> noFrame twoMoves \<and>
   renderCalls (step exampleHost AnimationFrame (run twoMoves startWorld)) \<le> renderCalls startWorld + 1 \<and>
   renderCalls (step exampleHost AnimationFrame (run twoMoves startWorld)) = 1 \<and>
   \<not> isRenderScheduled (state (step exampleHost AnimationFrame (run twoMoves startWorld)))"
  using render_single_flight [of startWorld twoMoves exampleHost] two_moves_render_once
  by (simp add: startWorld_def initial_flagMatchesQueue noFrame_def twoMoves_def)

section \<open>Resetting the offsets\<close>

lemma digitChar_zero: "digitChar 0 = CHR ''0''"
  by code_simp

lemma numberToString_zero: "numberToString fmt (JNum 0) = ''0''"
  by (simp add: numberToString_def decimalDigits.simps digitChar_zero)

lemma offset_keys_distinct: "offsetXKey \<noteq> offsetYKey"
  by (simp add: offsetXKey_def offsetYKey_def)

lemma saveOffsets_writable [simp]: "writable (saveOffsets fmt cfg sto) = writable sto"
  by (simp add: saveOffsets_def setItem_def)

lemma saveOffsets_zero:
  assumes "writable sto" and "offsetX cfg = JNum 0" and "offsetY cfg = JNum 0"
  shows "items (saveOffsets fmt cfg sto) offsetXKey = Some ''0''"
    and "items (saveOffsets fmt cfg sto) offsetYKey = Some ''0''"
  using assms offset_keys_distinct
  by (simp_all add: saveOffsets_def setItem_def numberToString_zero)

lemma offsetKeys_reset:
  assumes "active (state w)" and "isResetPress (config w) e"
  shows "config (offsetKeys h e w) = (config w)\<lparr>offsetX := JNum 0, offsetY := JNum 0\<rparr>"
    and "localStorage (offsetKeys h e w) =
           saveOffsets (formatNumber h) ((config w)\<lparr>offsetX := JNum 0, offsetY := JNum 0\<rparr>)
             (localStorage w)"
  using assms by (simp_all add: offsetKeys_def Let_def isResetPress_def arrowKeys_def)

lemma reset_press_effect:
  assumes "active (state w)" and "isResetPress (config w) e"
  shows "offsetsZero (handleKeyDown h e w)"
    and "writable (localStorage w) \<Longrightarrow> persistedZero (handleKeyDown h e w)"
    and "active (state (handleKeyDown h e w))"
    and "isResetPress (config (handleKeyDown h e w)) e"
    and "writable (localStorage (handleKeyDown h e w)) = writable (localStorage w)"
  using assms
  by (simp_all add: handleKeyDown_def activation_when_active offsetKeys_reset offsetsZero_def
      persistedZero_def saveOffsets_zero isResetPress_def)

lemma reset_press_storage:
  assumes "active (state w)" and "isResetPress (config w) e"
  shows "localStorage (handleKeyDown h e w) =
           saveOffsets (formatNumber h) ((config w)\<lparr>offsetX := JNum 0, offsetY := JNum 0\<rparr>)
             (localStorage w)"
  using assms by (simp add: handleKeyDown_def activation_when_active offsetKeys_reset)

lemma resetOffsets_effect:
  shows "offsetsZero (resetOffsets h w)"
    and "writable (localStorage w) \<Longrightarrow> persistedZero (resetOffsets h w)"
    and "writable (localStorage (resetOffsets h w)) = writable (localStorage w)"
  by (simp_all add: resetOffsets_def Let_def offsetsZero_def persistedZero_def saveOffsets_zero)

text \<open>
  Claim C7: the reset is idempotent. While the magnifier is active, a press of the reset
  key with its modifier sets both offsets to 0 from whatever they were, and so does a second
  press right after it; the store is written through \<open>saveOffsets\<close> with both offsets 0,
  so that when it takes writes, \<^verbatim>\<open>"0"\<close> is stored under both keys after each of the
  two. The same holds of \<open>resetOffsets\<close>, in any state.
\<close>

theorem reset_idempotent:
  "(active (state w) \<and> isResetPress (config w) e \<longrightarrow>
      offsetsZero (handleKeyDown h e w) \<and>
      offsetsZero (handleKeyDown h' e (handleKeyDown h e w)) \<and>
      localStorage (handleKeyDown h e w) =
        saveOffsets (formatNumber h) ((config w)\<lparr>offsetX := JNum 0, offsetY := JNum 0\<rparr>)
          (localStorage w) \<and>
      (writable (localStorage w) \<longrightarrow>
         persistedZero (handleKeyDown h e w) \<and>
         persistedZero (handleKeyDown h' e (handleKeyDown h e w)))) \<and>
   offsetsZero (resetOffsets h w) \<and>
   offsetsZero (resetOffsets h' (resetOffsets h w)) \<and>
   (writable (localStorage w) \<longrightarrow>
      persistedZero (resetOffsets h w) \<and> persistedZero (resetOffsets h' (resetOffsets h w)))"
  by (simp add: reset_press_effect resetOffsets_effect reset_press_storage)

lemma nudgedWorld_facts:
  "active (state nudgedWorld)"
  "isResetPress (config nudgedWorld) pressReset"
  "writable (localStorage nudgedWorld)"
  "\<not> offsetsZero nudgedWorld"
  by code_simp+

theorem reset_idempotent_witness:
  "active (state nudgedWorld) \<and> isResetPress (config nudgedWorld) pressReset \<and>
   writable (localStorage nudgedWorld) \<and> \<not> offsetsZero nudgedWorld \<and>
   offsetsZero (handleKeyDown exampleHost pressReset nudgedWorld) \<and>
   persistedZero (handleKeyDown exampleHost pressReset nudgedWorld) \<and>
   offsetsZero (handleKeyDown exampleHost pressReset (handleKeyDown exampleHost pressReset nudgedWorld)) \<and>
   persistedZero (handleKeyDown exampleHost pressReset (handleKeyDown exampleHost pressReset nudgedWorld))"
  using reset_idempotent [of nudgedWorld pressReset exampleHost exampleHost]
  by (simp add: nudgedWorld_facts)

section \<open>The overlay follows the activation\<close>

lemma activation_overlayInvariant: "overlayInvariant w \<Longrightarrow> overlayInvariant (activation h e w)"
  by (auto simp: activation_def overlayInvariant_def ui_show_def)

lemma offsetKeys_overlayInvariant: "overlayInvariant w \<Longrightarrow> overlayInvariant (offsetKeys h e w)"
  by (auto simp: offsetKeys_def Let_def overlayInvariant_def split: option.splits)

lemma handleKeyDown_overlayInvariant: "overlayInvariant w \<Longrightarrow> overlayInvariant (handleKeyDown h e w)"
  by (simp add: handleKeyDown_def offsetKeys_overlayInvariant activation_overlayInvariant)

lemma handleKeyUp_overlayInvariant: "overlayInvariant w \<Longrightarrow> overlayInvariant (handleKeyUp h e w)"
  by (auto simp: handleKeyUp_def Let_def overlayInvariant_def ui_hide_def)

lemma handleMouseMove_overlayInvariant: "overlayInvariant w \<Longrightarrow> overlayInvariant (handleMouseMove h e w)"
  by (auto simp: handleMouseMove_def Let_def overlayInvariant_def)

lemma frameCallback_overlayInvariant: "overlayInvariant w \<Longrightarrow> overlayInvariant (frameCallback h w)"
  by (auto simp: frameCallback_def Let_def renderHtmlOverlays_def render_def overlayInvariant_def
      split: option.splits)

lemma frameCallbacks_overlayInvariant:
  "overlayInvariant w \<Longrightarrow> overlayInvariant ((frameCallback h ^^ n) w)"
  by (induction n) (simp_all add: frameCallback_overlayInvariant)

lemma animationFrame_overlayInvariant: "overlayInvariant w \<Longrightarrow> overlayInvariant (animationFrame h w)"
  unfolding animationFrame_def
  by (rule frameCallbacks_overlayInvariant) (simp add: overlayInvariant_def)

lemma step_overlayInvariant: "overlayInvariant w \<Longrightarrow> overlayInvariant (step h ev w)"
  by (cases ev)
    (simp_all add: step_def handleKeyDown_overlayInvariant handleKeyUp_overlayInvariant
      handleMouseMove_overlayInvariant animationFrame_overlayInvariant)

lemma initial_overlayInvariant: "overlayInvariant (initial cfg sto)"
  by (simp add: initial_def overlayInvariant_def freshState_def)

lemma reachable_overlayInvariant: "reachable w \<Longrightarrow> overlayInvariant w"
  by (induction rule: reachable.induct)
    (simp_all add: initial_overlayInvariant step_overlayInvariant)

text \<open>
  Claim C8: in every state that key presses, key releases, pointer moves and frame ticks can
  reach, the glass, and the overlay container in it, is displayed if and only if the
  magnifier is active, and the overlay container has no clone while it is inactive.
\<close>

theorem overlay_visible_iff_active:
  "reachable w \<Longrightarrow>
     (glassDisplay (ui w) = DisplayBlock) = active (state w) \<and>
     (\<not> active (state w) \<longrightarrow> htmlOverlay (ui w) = [])"
  using reachable_overlayInvariant [of w] by (auto simp: overlayInvariant_def)

lemma activatedWorld_reachable: "reachable activatedWorld"
  unfolding activatedWorld_def startWorld_def by (intro reachable.intros)

lemma activatedWorld_active: "active (state activatedWorld)"
  by code_simp

theorem overlay_visible_iff_active_witness:
  "reachable activatedWorld \<and> active (state activatedWorld) \<and>
   glassDisplay (ui activatedWorld) = DisplayBlock"
  using overlay_visible_iff_active [of activatedWorld] activatedWorld_reachable activatedWorld_active
  by simp

section \<open>The arrow keys\<close>


text \<open>
  With an activation key among those the settings offer (line 1310), an arrow key never
  activates the magnifier.
\<close>

lemma arrow_key_does_not_activate:
  assumes "activationKey cfg \<in> {''x'', ''z'', ''m'', ''q'', ''v'', ''c''}"
    and "key e \<in> set arrowKeys"
  shows "\<not> activates cfg e"
proof -
  have "toLowerCase (key e) \<in> {''arrowup'', ''arrowdown'', ''arrowleft'', ''arrowright''}"
  proof -
    have "toLowerCase ''ArrowUp'' = ''arrowup''" by code_simp
    moreover have "toLowerCase ''ArrowDown'' = ''arrowdown''" by code_simp
    moreover have "toLowerCase ''ArrowLeft'' = ''arrowleft''" by code_simp
    moreover have "toLowerCase ''ArrowRight'' = ''arrowright''" by code_simp
    ultimately show ?thesis
      using assms(2) by (auto simp: arrowKeys_def)
  qed
  with assms(1) show ?thesis
    by (auto simp: activates_def)
qed




lemma shift_arrow_up_example:
  "offsetY (config (handleKeyDown exampleHost pressShiftArrowUp nudgedWorld)) = JNum (- 28)"
  by code_simp

section \<open>A pointer outside the canvas\<close>

lemma js_less_not_le: "(a::jsnum) < b \<Longrightarrow> \<not> b \<le> a"
  by (cases a; cases b) auto

lemma calculateSourceRegion64_frame [simp]:
  "active (calculateSourceRegion64 cfg st) = active st"
  "isRenderScheduled (calculateSourceRegion64 cfg st) = isRenderScheduled st"
  "cursorX (calculateSourceRegion64 cfg st) = cursorX st"
  "cursorY (calculateSourceRegion64 cfg st) = cursorY st"
  by (simp_all add: calculateSourceRegion64_def Let_def)

lemma updateCanvasTransformation_cursor [simp]:
  "cursorX (updateCanvasTransformation h st) = cursorX st"
  "cursorY (updateCanvasTransformation h st) = cursorY st"
  by (simp_all add: updateCanvasTransformation_def Let_def split: option.splits)

lemma updateMagnifiedView64_effect:
  assumes "active (state w)" and "hasRenderer w" and "hasCanvas w"
    and "\<not> isRenderScheduled (state w)"
  shows "cursorX (state (updateMagnifiedView64 h w)) = cursorX (state w)"
    and "pendingFrames (updateMagnifiedView64 h w) = Suc (pendingFrames w)"
    and "isRenderScheduled (state (updateMagnifiedView64 h w))"
  using assms by (simp_all add: updateMagnifiedView64_def Let_def)

lemma handleMouseMove64_inside:
  assumes "active (state w)" and "hasRenderer w" and "hasCanvas w"
    and "\<not> isRenderScheduled (state w)"
    and "JNum 0 \<le> sub64 (clientX e) (dr_left (canvasRect h))"
    and "sub64 (clientX e) (dr_left (canvasRect h)) \<le> dr_width (canvasRect h)"
    and "JNum 0 \<le> sub64 (clientY e) (dr_top (canvasRect h))"
    and "sub64 (clientY e) (dr_top (canvasRect h)) \<le> dr_height (canvasRect h)"
  shows "cursorX (state (handleMouseMove64 h e w))
           = mul64 (sub64 (clientX e) (dr_left (canvasRect h)))
               (cssToCanvasScale64 (canvasWidth h) (dr_width (canvasRect h)))"
    and "pendingFrames (handleMouseMove64 h e w) = Suc (pendingFrames w)"
    and "isRenderScheduled (state (handleMouseMove64 h e w))"
  using assms by (simp_all add: handleMouseMove64_def Let_def updateMagnifiedView64_effect)

text \<open>
  The roundings of the example: \<^verbatim>\<open>128.3 + 800.3\<close> and \<^verbatim>\<open>928.6 - 128.3\<close> are both half
  way between two doubles and go to the even one, \<^verbatim>\<open>928.5999999999999\<close> and \<^verbatim>\<open>800.3\<close>;
  then \<^verbatim>\<open>800 / 800.3\<close> and the product that gives the cursor.
\<close>

lemma round64_1283: "round64 (1283 / 10) = JNum (2257077469498573 / 17592186044416)"
  by (rule round64_nearI [where k = 45 and n = 4514154938997146]) simp_all

lemma round64_8003: "round64 (8003 / 10) = JNum (3519756622836531 / 4398046511104)"
  by (rule round64_nearI [where k = 43 and n = 7039513245673062]) simp_all

lemma round64_9286: "round64 (9286 / 10) = JNum (8168051980422349 / 8796093022208)"
  by (rule round64_nearI [where k = 43 and n = 8168051980422349]) simp_all

lemma round64_rectRight:
  "round64 (16336103960844697 / 17592186044416) = JNum (2042012995105587 / 2199023255552)"
  by (rule round64_tieI [where k = 43 and n = 8168051980422348]) simp_all

lemma round64_cssMouseX:
  "round64 (14079026491346125 / 17592186044416) = JNum (3519756622836531 / 4398046511104)"
  by (rule round64_tieI [where k = 43 and n = 7039513245673062]) simp_all

lemma round64_scaleX:
  "round64 (3518437208883200 / 3519756622836531) = JNum (9003822821183049 / 9007199254740992)"
  by (rule round64_nearI [where k = 53 and n = 9003822821183049]) simp_all

lemma round64_pixelX:
  "round64 (31691265005705735500327555163019 / 39614081257132168796771975168) = JNum 800"
  by (rule round64_nearI [where k = 43 and n = 7036874417766400]) simp_all

lemma round64_10: "round64 10 = JNum 10"
  by (rule round64_nearI [where k = 49 and n = 5629499534213120]) simp_all

lemma round64_900: "round64 900 = JNum 900"
  by (rule round64_nearI [where k = 43 and n = 7916483719987200]) simp_all

lemma settledWorld_facts:
  "active (state settledWorld)" "hasCanvas settledWorld" "hasRenderer settledWorld"
  "\<not> isRenderScheduled (state settledWorld)" "pendingFrames settledWorld = 0"
  "cursorX (state settledWorld) = JNum 0"
  by code_simp+

lemmas shifted_defs = shiftedHost_def exampleHost_def moveBeyondRight_def sub64_def add64_def
  div64_def mul64_def dr_right64_def cssToCanvasScale64_def minus_jsnum_def
  round64_cssMouseX round64_10 round64_rectRight round64_scaleX round64_pixelX

lemma shifted_out: "dr_right64 (canvasRect shiftedHost) < clientX moveBeyondRight"
  by (simp add: shifted_defs)

lemma shifted_inside:
  "JNum 0 \<le> sub64 (clientX moveBeyondRight) (dr_left (canvasRect shiftedHost))"
  "sub64 (clientX moveBeyondRight) (dr_left (canvasRect shiftedHost)) \<le> dr_width (canvasRect shiftedHost)"
  "JNum 0 \<le> sub64 (clientY moveBeyondRight) (dr_top (canvasRect shiftedHost))"
  "sub64 (clientY moveBeyondRight) (dr_top (canvasRect shiftedHost)) \<le> dr_height (canvasRect shiftedHost)"
  by (simp_all add: shifted_defs)

lemma shifted_pixel:
  "mul64 (sub64 (clientX moveBeyondRight) (dr_left (canvasRect shiftedHost)))
     (cssToCanvasScale64 (canvasWidth shiftedHost) (dr_width (canvasRect shiftedHost))) = JNum 800"
  by (simp add: shifted_defs)

text \<open>
  Claim C10, as the specification states it: a pointer move outside the client rectangle of
  the host canvas, while the magnifier is active, changes the last known mouse position and
  nothing else. In double precision this fails at the right edge. With the canvas at
  \<^verbatim>\<open>left: 128.3\<close> and \<^verbatim>\<open>width: 800.3\<close> its right edge is \<^verbatim>\<open>928.5999999999999\<close>, and a
  pointer at \<^verbatim>\<open>clientX: 928.6\<close> is beyond it. The handler measures
  \<^verbatim>\<open>928.6 - 128.3\<close>, which rounds to \<^verbatim>\<open>800.3\<close>, the width: its test passes, the cursor of
  the state moves from 0 to 800, and a frame is requested.
\<close>

theorem handleMouseMove64_beyond_right_edge:
  "dr_left (canvasRect shiftedHost) = round64 (1283 / 10) \<and>
   dr_width (canvasRect shiftedHost) = round64 (8003 / 10) \<and>
   clientX moveBeyondRight = round64 (9286 / 10) \<and>
   outsideCanvas64 shiftedHost moveBeyondRight \<and>
   dr_right64 (canvasRect shiftedHost) < clientX moveBeyondRight \<and>
   active (state settledWorld) \<and>
   cursorX (state settledWorld) = JNum 0 \<and>
   pendingFrames settledWorld = 0 \<and>
   \<not> isRenderScheduled (state settledWorld) \<and>
   cursorX (state (handleMouseMove64 shiftedHost moveBeyondRight settledWorld)) = JNum 800 \<and>
   pendingFrames (handleMouseMove64 shiftedHost moveBeyondRight settledWorld) = 1 \<and>
   isRenderScheduled (state (handleMouseMove64 shiftedHost moveBeyondRight settledWorld))"
proof -
  note eff = handleMouseMove64_inside [OF settledWorld_facts(1,3,2,4) shifted_inside]
  have doubles:
    "dr_left (canvasRect shiftedHost) = round64 (1283 / 10) \<and>
     dr_width (canvasRect shiftedHost) = round64 (8003 / 10) \<and>
     clientX moveBeyondRight = round64 (9286 / 10)"
    unfolding round64_1283 round64_8003 round64_9286
    by (simp add: shiftedHost_def exampleHost_def moveBeyondRight_def)
  have moved:
    "outsideCanvas64 shiftedHost moveBeyondRight \<and>
     dr_right64 (canvasRect shiftedHost) < clientX moveBeyondRight \<and>
     active (state settledWorld) \<and>
     cursorX (state settledWorld) = JNum 0 \<and>
     pendingFrames settledWorld = 0 \<and>
     \<not> isRenderScheduled (state settledWorld) \<and>
     cursorX (state (handleMouseMove64 shiftedHost moveBeyondRight settledWorld)) = JNum 800 \<and>
     pendingFrames (handleMouseMove64 shiftedHost moveBeyondRight settledWorld) = 1 \<and>
     isRenderScheduled (state (handleMouseMove64 shiftedHost moveBeyondRight settledWorld))"
    using shifted_out eff(2,3) settledWorld_facts
    by (simp add: outsideCanvas64_def eff(1) shifted_pixel)
  from doubles moved show ?thesis by blast
qed

text \<open>
  What the measure of the handler has in common with the geometry: a pointer to the left of
  the left edge by \<open>1 / 2 ^ 1074\<close> at least, the least distance between two doubles, is
  measured below zero, and a pointer beyond the left edge by more than the width, one part
  in \<open>2 ^ 52\<close> of the width and \<open>1 / 2 ^ 1074\<close> is measured above the width. The same holds
  of the top edge and the height.
\<close>

lemma sub64_below_zero:
  assumes d: "c - l \<le> - (1 / 2 ^ 1074)" and b: "\<bar>c - l\<bar> \<le> 2 ^ 1000"
  shows "sub64 (JNum c) (JNum l) < JNum 0"
proof -
  define d where "d = c - l"
  obtain y where y: "round64 d = JNum y" and e: "\<bar>y - d\<bar> \<le> \<bar>d\<bar> / 2 ^ 53 + 1 / 2 ^ 1075"
    using round64_error [of d] b unfolding d_def by blast
  have dm: "d \<le> - (1 / 2 ^ 1074)" using assms(1) by (simp add: d_def)
  have d0: "d < 0"
  proof -
    have "(0::real) < 1 / 2 ^ 1074" by simp
    then show ?thesis using dm by linarith
  qed
  have "y \<le> d + \<bar>d\<bar> / 2 ^ 53 + 1 / 2 ^ 1075" using e by linarith
  also have "\<bar>d\<bar> = - d" using d0 by simp
  finally have le: "y \<le> d + (- d) / 2 ^ 53 + 1 / 2 ^ 1075" .
  have "d + (- d) / 2 ^ 53 + 1 / 2 ^ 1075 < 0" using dm by (simp; argo)
  then have "y < 0" using le by linarith
  then show ?thesis by (simp add: sub64_def minus_jsnum_def d_def [symmetric] y)
qed

lemma sub64_above_extent:
  assumes wd: "0 \<le> wd" and d: "wd + wd / 2 ^ 52 + 1 / 2 ^ 1074 \<le> c - l"
    and b: "\<bar>c - l\<bar> \<le> 2 ^ 1000"
  shows "JNum wd < sub64 (JNum c) (JNum l)"
proof -
  define d where "d = c - l"
  obtain y where y: "round64 d = JNum y" and e: "\<bar>y - d\<bar> \<le> \<bar>d\<bar> / 2 ^ 53 + 1 / 2 ^ 1075"
    using round64_error [of d] b unfolding d_def by blast
  have dm: "wd + wd / 2 ^ 52 + 1 / 2 ^ 1074 \<le> d" using assms(2) by (simp add: d_def)
  have d0: "0 < d"
  proof -
    have "(0::real) < 1 / 2 ^ 1074" by simp
    moreover have "0 \<le> wd / 2 ^ 52" using wd by simp
    ultimately show ?thesis using dm wd by linarith
  qed
  have "d - \<bar>d\<bar> / 2 ^ 53 - 1 / 2 ^ 1075 \<le> y" using e by linarith
  moreover have "\<bar>d\<bar> = d" using d0 by simp
  ultimately have le: "d - d / 2 ^ 53 - 1 / 2 ^ 1075 \<le> y" by simp
  have "wd < d - d / 2 ^ 53 - 1 / 2 ^ 1075" using dm wd by (simp; argo)
  then have "wd < y" using le by linarith
  then show ?thesis by (simp add: sub64_def minus_jsnum_def d_def [symmetric] y)
qed

lemma measuredOutside_horizontal:
  assumes "clientX e = JNum c" and "dr_left (canvasRect h) = JNum l"
    and "dr_width (canvasRect h) = JNum wd" and "0 \<le> wd" and "\<bar>c - l\<bar> \<le> 2 ^ 1000"
    and "c - l \<le> - (1 / 2 ^ 1074) \<or> wd + wd / 2 ^ 52 + 1 / 2 ^ 1074 \<le> c - l"
  shows "measuredOutside h e"
  using assms sub64_below_zero [of c l] sub64_above_extent [of wd c l]
  by (auto simp: measuredOutside_def Let_def)

lemma measuredOutside_vertical:
  assumes "clientY e = JNum c" and "dr_top (canvasRect h) = JNum t"
    and "dr_height (canvasRect h) = JNum ht" and "0 \<le> ht" and "\<bar>c - t\<bar> \<le> 2 ^ 1000"
    and "c - t \<le> - (1 / 2 ^ 1074) \<or> ht + ht / 2 ^ 52 + 1 / 2 ^ 1074 \<le> c - t"
  shows "measuredOutside h e"
  using assms sub64_below_zero [of c t] sub64_above_extent [of ht c t]
  by (auto simp: measuredOutside_def Let_def)

text \<open>
  Claim C10, amended: a pointer move that the handler measures outside the canvas, that is
  whose \<^verbatim>\<open>clientX - rect.left\<close> or \<^verbatim>\<open>clientY - rect.top\<close>, as rounded by the subtraction,
  is below zero or above the width or the height of the rectangle, changes the last known
  mouse position and nothing else, while the magnifier is active as while it is not: the
  cursor of the state, the sample rectangle and the pending flag stay, and no callback is
  queued.
\<close>

theorem handleMouseMove64_measured_outside:
  "measuredOutside h e \<Longrightarrow>
     handleMouseMove64 h e w = w\<lparr>lastKnownMousePosition := (clientX e, clientY e)\<rparr> \<and>
     state (handleMouseMove64 h e w) = state w \<and>
     pendingFrames (handleMouseMove64 h e w) = pendingFrames w"
  by (auto simp: handleMouseMove64_def Let_def measuredOutside_def dest: js_less_not_le)

lemma moveOutside_measured: "measuredOutside exampleHost moveOutside"
  by (simp add: measuredOutside_def Let_def exampleHost_def moveOutside_def sub64_def
      minus_jsnum_def round64_900 round64_10)

theorem handleMouseMove64_measured_outside_witness:
  "measuredOutside exampleHost moveOutside \<and> active (state settledWorld) \<and>
   handleMouseMove64 exampleHost moveOutside settledWorld
     = settledWorld\<lparr>lastKnownMousePosition := (JNum 900, JNum 10)\<rparr> \<and>
   state (handleMouseMove64 exampleHost moveOutside settledWorld) = state settledWorld \<and>
   pendingFrames (handleMouseMove64 exampleHost moveOutside settledWorld) = pendingFrames settledWorld"
  using handleMouseMove64_measured_outside [of exampleHost moveOutside settledWorld]
    moveOutside_measured settledWorld_facts(1)
  by (simp add: moveOutside_def)

end
